theory Spec2Isabelle
  imports Complex_Main
begin

section \<open>Tensor values\<close>

text \<open>
  The elements of a tensor are floating-point numbers. The model keeps the three special
  values that steer the control flow of the code (the two infinities and NaN) and
  computes on the finite values with exact real arithmetic: rounding, overflow of a finite
  result and the sign of zero are not modelled (a zero divisor counts as \<open>+0\<close>).
\<close>

datatype scalar = Fin real | PInf | NInf | NaN

type_synonym vec = "scalar list"

fun isnan :: "scalar \<Rightarrow> bool" where
  "isnan NaN = True"
| "isnan _ = False"

definition inf_signed :: "real \<Rightarrow> scalar" where
  "inf_signed a = (if 0 < a then PInf else if a < 0 then NInf else NaN)"

fun s_neg :: "scalar \<Rightarrow> scalar" where
  "s_neg (Fin a) = Fin (- a)"
| "s_neg PInf = NInf"
| "s_neg NInf = PInf"
| "s_neg NaN = NaN"

fun s_add :: "scalar \<Rightarrow> scalar \<Rightarrow> scalar" where
  "s_add (Fin a) (Fin b) = Fin (a + b)"
| "s_add (Fin a) PInf = PInf"
| "s_add (Fin a) NInf = NInf"
| "s_add PInf (Fin b) = PInf"
| "s_add PInf PInf = PInf"
| "s_add PInf NInf = NaN"
| "s_add NInf (Fin b) = NInf"
| "s_add NInf PInf = NaN"
| "s_add NInf NInf = NInf"
| "s_add NaN _ = NaN"
| "s_add _ NaN = NaN"

definition s_sub :: "scalar \<Rightarrow> scalar \<Rightarrow> scalar" where
  "s_sub a b = s_add a (s_neg b)"

fun s_mul :: "scalar \<Rightarrow> scalar \<Rightarrow> scalar" where
  "s_mul (Fin a) (Fin b) = Fin (a * b)"
| "s_mul (Fin a) PInf = inf_signed a"
| "s_mul (Fin a) NInf = inf_signed (- a)"
| "s_mul PInf (Fin b) = inf_signed b"
| "s_mul PInf PInf = PInf"
| "s_mul PInf NInf = NInf"
| "s_mul NInf (Fin b) = inf_signed (- b)"
| "s_mul NInf PInf = NInf"
| "s_mul NInf NInf = PInf"
| "s_mul NaN _ = NaN"
| "s_mul _ NaN = NaN"

fun s_div :: "scalar \<Rightarrow> scalar \<Rightarrow> scalar" where
  "s_div (Fin a) (Fin b) = (if b = 0 then inf_signed a else Fin (a / b))"
| "s_div (Fin a) PInf = Fin 0"
| "s_div (Fin a) NInf = Fin 0"
| "s_div PInf (Fin b) = (if 0 \<le> b then PInf else NInf)"
| "s_div NInf (Fin b) = (if 0 \<le> b then NInf else PInf)"
| "s_div PInf PInf = NaN"
| "s_div PInf NInf = NaN"
| "s_div NInf PInf = NaN"
| "s_div NInf NInf = NaN"
| "s_div NaN _ = NaN"
| "s_div _ NaN = NaN"

fun s_sqrt :: "scalar \<Rightarrow> scalar" where
  "s_sqrt (Fin a) = (if a < 0 then NaN else Fin (sqrt a))"
| "s_sqrt PInf = PInf"
| "s_sqrt NInf = NaN"
| "s_sqrt NaN = NaN"

text \<open>The comparison \<open><\<close>: false as soon as one side is NaN.\<close>

fun s_less :: "scalar \<Rightarrow> scalar \<Rightarrow> bool" where
  "s_less (Fin a) (Fin b) = (a < b)"
| "s_less (Fin a) PInf = True"
| "s_less NInf (Fin b) = True"
| "s_less NInf PInf = True"
| "s_less _ _ = False"

text \<open>\<^verbatim>\<open>torch.isnan(t).any()\<close>, \<^verbatim>\<open>torch.zeros(n)\<close>.\<close>

definition has_nan :: "vec \<Rightarrow> bool" where
  "has_nan v = list_ex isnan v"

definition zeros :: "nat \<Rightarrow> vec" where
  "zeros n = replicate n (Fin 0)"

section \<open>Errors, parameters and the state of a call\<close>

text \<open>
  Every exception the code can raise is a value: the three \<^verbatim>\<open>ValueError\<close>s of
  \<^verbatim>\<open>Hvp_vec\<close> and the \<^verbatim>\<open>RuntimeError\<close> of the shape check carry the
  message of the source; the others are raised by Python or by the tensor library.
\<close>

datatype error =
    ValueError string
  | RuntimeError string
  | TypeError string
  | UnboundLocalError string
  | IndexError string

text \<open>
  A parameter is an object with a shape (only its element count matters here, every
  gradient is flattened) and a mutable \<^verbatim>\<open>.grad\<close> slot. Parameter lists hold
  references, so that one object can stand twice in a list.
\<close>

record param =
  numel :: nat
  grad :: "vec option"

datatype ddp_event = RebuildBuckets nat | PrepareForBackward nat

text \<open>
  The state a call can see and change: the storages of the caller's tensors (\<open>heap\<close>,
  a fresh storage is appended), the parameter objects, the calls received by the
  distributed reducers and the warnings emitted.
\<close>

record world =
  heap :: "vec list"
  pstore :: "nat \<Rightarrow> param"
  ddp_log :: "ddp_event list"
  warnings :: "nat list"

type_synonym 'a comp = "world \<Rightarrow> (error + 'a) \<times> world"

definition ret :: "'a \<Rightarrow> 'a comp" where
  "ret a = (\<lambda>w. (Inr a, w))"

definition lift :: "error + 'a \<Rightarrow> 'a comp" where
  "lift r = (\<lambda>w. (r, w))"

definition bnd :: "'a comp \<Rightarrow> ('a \<Rightarrow> 'b comp) \<Rightarrow> 'b comp" where
  "bnd m f = (\<lambda>w. case m w of (Inl e, w') \<Rightarrow> (Inl e, w') | (Inr a, w') \<Rightarrow> f a w')"

text \<open>
  A gradient tensor (\<^verbatim>\<open>grad_x\<close>, \<^verbatim>\<open>grad_y\<close>) is attached to a computation
  graph. The model keeps its shape, its values and, as a black box, the vector-Jacobian
  product of its graph: \<open>g_vjp g retain_graph params vec\<close> is what reverse-mode
  differentiation of \<open>g\<close> with respect to \<open>params\<close> with cotangent \<open>vec\<close> yields, one
  entry per parameter, \<open>None\<close> for a parameter the graph does not reach. Gradient
  tensors are taken not to share storage with the tensors of the heap.
\<close>

record gtensor =
  g_shape :: "nat list"
  g_data :: vec
  g_vjp :: "bool \<Rightarrow> nat list \<Rightarrow> vec \<Rightarrow> error + vec option list"

text \<open>
  A flat tensor of the caller is a view into a storage: the storage it reads and writes,
  and the cell of the storage that each of its elements occupies. Two tensor objects may
  share a storage and cells (\<^verbatim>\<open>b.detach()\<close>, \<^verbatim>\<open>b.view(-1)\<close>, a slice, a
  strided or an expanded view); its shape is the number of its elements.
\<close>

record tensor =
  t_storage :: nat
  t_index :: "nat list"

definition load :: "world \<Rightarrow> tensor \<Rightarrow> vec" where
  "load w t = map (\<lambda>i. heap w ! t_storage t ! i) (t_index t)"

section \<open>The tensor library\<close>

text \<open>
  \<^verbatim>\<open>torch.cat\<close> of flat tensors; it refuses the empty list.
\<close>

definition torch_cat :: "vec list \<Rightarrow> error + vec" where
  "torch_cat ts =
     (if ts = [] then Inl (RuntimeError ''torch.cat(): expected a non-empty list of Tensors'')
      else Inr (concat ts))"

text \<open>
  Both differentiation entry points first compare the shape of the cotangent with the
  shape of the differentiated tensor and raise on a mismatch. \<^verbatim>\<open>autograd.grad\<close>
  (with \<^verbatim>\<open>allow_unused=True\<close>) then returns the products;
  \<^verbatim>\<open>autograd.backward\<close> accumulates them into the \<^verbatim>\<open>.grad\<close> slots of
  its inputs, leaving the slot of an unreached parameter as it is. The communication
  hooks of a distributed reducer are not modelled.
\<close>

definition autograd_grad :: "gtensor \<Rightarrow> nat list \<Rightarrow> vec \<Rightarrow> bool \<Rightarrow> error + vec option list" where
  "autograd_grad g params vec retain_graph =
     (if [length vec] \<noteq> g_shape g then Inl (RuntimeError ''Mismatch in shape'')
      else g_vjp g retain_graph params vec)"

fun accumulate_grad :: "nat list \<Rightarrow> vec option list \<Rightarrow> (nat \<Rightarrow> param) \<Rightarrow> (nat \<Rightarrow> param)" where
  "accumulate_grad (p # ps) (Some v # gs) s =
     accumulate_grad ps gs
       (s(p := (s p)\<lparr>grad := (case grad (s p) of None \<Rightarrow> Some v
                                | Some old \<Rightarrow> Some (map2 s_add old v))\<rparr>))"
| "accumulate_grad (p # ps) (None # gs) s = accumulate_grad ps gs s"
| "accumulate_grad _ _ s = s"

definition autograd_backward :: "gtensor \<Rightarrow> vec \<Rightarrow> nat list \<Rightarrow> bool \<Rightarrow> unit comp" where
  "autograd_backward g vec params retain_graph w =
     (case autograd_grad g params vec retain_graph of
        Inl e \<Rightarrow> (Inl e, w)
      | Inr gs \<Rightarrow> (Inr (), w\<lparr>pstore := accumulate_grad params gs (pstore w)\<rparr>))"

section \<open>The gradient vectorizer and the Hvp oracle\<close>

text \<open>
  \<^verbatim>\<open>vectorize_grad\<close>: the loop over \<^verbatim>\<open>params\<close> appends to
  \<^verbatim>\<open>grad_list\<close> and deletes each buffer it has read.
\<close>

fun vectorize_grad_loop :: "nat list \<Rightarrow> vec list \<Rightarrow> (nat \<Rightarrow> param) \<Rightarrow> vec list \<times> (nat \<Rightarrow> param)" where
  "vectorize_grad_loop [] grad_list s = (grad_list, s)"
| "vectorize_grad_loop (p # ps) grad_list s =
     (case grad (s p) of
        Some g \<Rightarrow> vectorize_grad_loop ps (grad_list @ [g]) (s(p := (s p)\<lparr>grad := None\<rparr>))
      | None \<Rightarrow> vectorize_grad_loop ps (grad_list @ [zeros (numel (s p))]) s)"

definition vectorize_grad :: "nat list \<Rightarrow> vec comp" where
  "vectorize_grad params w =
     (case vectorize_grad_loop params [] (pstore w) of
        (grad_list, s) \<Rightarrow> (torch_cat grad_list, w\<lparr>pstore := s\<rparr>))"

text \<open>\<^verbatim>\<open>zero_grad\<close>: an existing buffer is zeroed in place, an absent one stays absent.\<close>

fun zero_grad_loop :: "nat list \<Rightarrow> (nat \<Rightarrow> param) \<Rightarrow> (nat \<Rightarrow> param)" where
  "zero_grad_loop [] s = s"
| "zero_grad_loop (p # ps) s =
     zero_grad_loop ps
       (case grad (s p) of
          Some g \<Rightarrow> s(p := (s p)\<lparr>grad := Some (zeros (length g))\<rparr>)
        | None \<Rightarrow> s)"

definition zero_grad :: "nat list \<Rightarrow> world \<Rightarrow> world" where
  "zero_grad params w = w\<lparr>pstore := zero_grad_loop params (pstore w)\<rparr>"

text \<open>
  The graph-mode loop of \<^verbatim>\<open>Hvp_vec\<close> over \<^verbatim>\<open>enumerate(params)\<close>, reading
  \<^verbatim>\<open>grad_grad[i]\<close>.
\<close>

fun grad_grad_loop :: "(nat \<Rightarrow> param) \<Rightarrow> vec option list \<Rightarrow> nat \<Rightarrow> nat list \<Rightarrow> vec list \<Rightarrow> error + vec list" where
  "grad_grad_loop s grad_grad i [] grad_list = Inr grad_list"
| "grad_grad_loop s grad_grad i (p # ps) grad_list =
     (if length grad_grad \<le> i then Inl (IndexError ''tuple index out of range'')
      else grad_grad_loop s grad_grad (Suc i) ps
             (grad_list @ [case grad_grad ! i of None \<Rightarrow> zeros (numel (s p)) | Some g \<Rightarrow> g]))"

text \<open>
  The reducer calls of the accumulation mode. A reducer is known by its identity only; its
  calls are logged.
\<close>

definition reducer_calls :: "nat option \<Rightarrow> bool \<Rightarrow> world \<Rightarrow> world" where
  "reducer_calls reducer rebuild w =
     (case reducer of
        None \<Rightarrow> w
      | Some rd \<Rightarrow>
          w\<lparr>ddp_log := ddp_log w @ (if rebuild then [RebuildBuckets rd] else [])
                          @ [PrepareForBackward rd]\<rparr>)"

text \<open>
  The body of \<^verbatim>\<open>Hvp_vec\<close> between the checks of its inputs and the check of its
  output. In accumulation mode the argument \<^verbatim>\<open>grad_vec + 0.0 * trigger\<close> is
  evaluated before \<^verbatim>\<open>autograd.backward\<close> is entered; with \<^verbatim>\<open>trigger = None\<close>
  the product raises. The sum has the graph and the shape of \<^verbatim>\<open>grad_vec\<close>.
\<close>

definition Hvp_compute ::
  "gtensor \<Rightarrow> nat list \<Rightarrow> vec \<Rightarrow> bool \<Rightarrow> bool \<Rightarrow> scalar option \<Rightarrow> nat option \<Rightarrow> bool \<Rightarrow> vec comp" where
  "Hvp_compute grad_vec params vec backward retain_graph trigger reducer rebuild w =
     (if backward then
        (let w1 = reducer_calls reducer rebuild (zero_grad params w) in
         case trigger of
           None \<Rightarrow> (Inl (TypeError ''unsupported operand type(s) for *: float and NoneType''), w1)
         | Some t \<Rightarrow>
             bnd (autograd_backward grad_vec vec params retain_graph)
                 (\<lambda>_. vectorize_grad params) w1)
      else
        (case autograd_grad grad_vec params vec retain_graph of
           Inl e \<Rightarrow> (Inl e, w)
         | Inr grad_grad \<Rightarrow>
             (case grad_grad_loop (pstore w) grad_grad 0 params [] of
                Inl e \<Rightarrow> (Inl e, w)
              | Inr grad_list \<Rightarrow> (torch_cat grad_list, w))))"

definition Hvp_vec ::
  "gtensor \<Rightarrow> nat list \<Rightarrow> vec \<Rightarrow> bool \<Rightarrow> bool \<Rightarrow> scalar option \<Rightarrow> nat option \<Rightarrow> bool \<Rightarrow> vec comp" where
  "Hvp_vec grad_vec params vec backward retain_graph trigger reducer rebuild w =
     (if has_nan (g_data grad_vec) then (Inl (ValueError ''Gradvec nan''), w)
      else if has_nan vec then (Inl (ValueError ''vector nan''), w)
      else
        (case Hvp_compute grad_vec params vec backward retain_graph trigger reducer rebuild w of
           (Inl e, w') \<Rightarrow> (Inl e, w')
         | (Inr hvp, w') \<Rightarrow>
             if has_nan hvp then (Inl (ValueError ''hvp Nan''), w') else (Inr hvp, w')))"

section \<open>Arithmetic on flat tensors\<close>

text \<open>
  Elementwise operations on one-dimensional tensors follow the broadcasting rule: equal
  lengths, or one operand of length one. An in-place operation (\<^verbatim>\<open>mul_\<close>,
  \<^verbatim>\<open>add_\<close>) cannot enlarge its target.
\<close>

definition bcast :: "(scalar \<Rightarrow> scalar \<Rightarrow> scalar) \<Rightarrow> vec \<Rightarrow> vec \<Rightarrow> error + vec" where
  "bcast f a b =
     (if length a = length b then Inr (map2 f a b)
      else if length a = 1 then Inr (map (f (hd a)) b)
      else if length b = 1 then Inr (map (\<lambda>u. f u (hd b)) a)
      else Inl (RuntimeError ''The size of tensor a must match the size of tensor b''))"

definition bcast_inplace :: "(scalar \<Rightarrow> scalar \<Rightarrow> scalar) \<Rightarrow> vec \<Rightarrow> vec \<Rightarrow> error + vec" where
  "bcast_inplace f a b =
     (if length a = length b then Inr (map2 f a b)
      else if length b = 1 then Inr (map (\<lambda>u. f u (hd b)) a)
      else Inl (RuntimeError ''output shape does not match the broadcast shape''))"

definition dotv :: "vec \<Rightarrow> vec \<Rightarrow> scalar" where
  "dotv a b = foldl s_add (Fin 0) (map2 s_mul a b)"

definition torch_dot :: "vec \<Rightarrow> vec \<Rightarrow> error + scalar" where
  "torch_dot a b =
     (if length a = length b then Inr (dotv a b)
      else Inl (RuntimeError ''inconsistent tensor size''))"

text \<open>A zero-dimensional tensor times a tensor; a tensor times a Python float.\<close>

definition scale :: "scalar \<Rightarrow> vec \<Rightarrow> vec" where
  "scale c v = map (s_mul c) v"

definition mul_float :: "vec \<Rightarrow> scalar \<Rightarrow> vec" where
  "mul_float v c = map (\<lambda>h. s_mul h c) v"

text \<open>Reading a tensor of the caller; \<^verbatim>\<open>torch.zeros(n)\<close>, a tensor on a storage of its own.\<close>

definition read_tensor :: "tensor \<Rightarrow> vec comp" where
  "read_tensor t = (\<lambda>w. (Inr (load w t), w))"

definition new_zeros :: "nat \<Rightarrow> tensor comp" where
  "new_zeros n =
     (\<lambda>w. (Inr \<lparr>t_storage = length (heap w), t_index = [0..<n]\<rparr>,
            w\<lparr>heap := heap w @ [zeros n]\<rparr>))"

text \<open>
  \<^verbatim>\<open>x.data.add_(v)\<close>: the sum is written through the view into the cells of the
  storage, so every tensor that shares one of these cells sees it. The library refuses an
  in-place operation on a view of which two elements occupy one cell.
\<close>

definition store_cells :: "nat list \<Rightarrow> vec \<Rightarrow> vec \<Rightarrow> vec" where
  "store_cells idx u buf = fold (\<lambda>(i, s) buf. buf[i := s]) (zip idx u) buf"

definition data_add :: "tensor \<Rightarrow> vec \<Rightarrow> unit comp" where
  "data_add x v =
     (\<lambda>w. if \<not> distinct (t_index x)
            then (Inl (RuntimeError ''more than one element of the written-to tensor refers to a single memory location''), w)
          else
            (case bcast_inplace s_add (load w x) v of
               Inl e \<Rightarrow> (Inl e, w)
             | Inr u \<Rightarrow>
                 (Inr (), w\<lparr>heap := (heap w)[t_storage x :=
                                   store_cells (t_index x) u (heap w ! t_storage x)]\<rparr>)))"

definition warn :: "nat \<Rightarrow> unit comp" where
  "warn n = (\<lambda>w. (Inr (), w\<lparr>warnings := warnings w @ [n]\<rparr>))"

section \<open>The conjugate-gradient solvers\<close>

text \<open>
  The locals of the iteration. \<^verbatim>\<open>r\<close> and \<^verbatim>\<open>p\<close> are tensors the solver
  creates itself (a clone, a difference, a sum) and hands to nobody, so they share no
  storage with a tensor of the caller; the solution \<^verbatim>\<open>x\<close> is a tensor of the heap.
\<close>

record cg_locals =
  loc_r :: vec
  loc_p :: vec
  loc_rdotr :: scalar

text \<open>
  \<^verbatim>\<open>for i in range(n): body\<close>, entered with \<open>n > 0\<close>: \<open>for_range body i k\<close> runs
  iteration \<open>i\<close> with \<open>k\<close> more iterations left after it and returns the value \<open>i\<close>
  has when the loop is left, at a \<^verbatim>\<open>break\<close> or at the end of the range.
\<close>

fun for_range :: "(cg_locals \<Rightarrow> (cg_locals \<times> bool) comp) \<Rightarrow> nat \<Rightarrow> nat \<Rightarrow> cg_locals \<Rightarrow> nat comp" where
  "for_range body i 0 st w =
     (case body st w of
        (Inl e, w') \<Rightarrow> (Inl e, w')
      | (Inr (st', brk), w') \<Rightarrow> (Inr i, w'))"
| "for_range body i (Suc k) st w =
     (case body st w of
        (Inl e, w') \<Rightarrow> (Inl e, w')
      | (Inr (st', brk), w') \<Rightarrow> if brk then (Inr i, w') else for_range body (Suc i) k st' w')"

subsection \<open>The unscaled variant\<close>

text \<open>
  One application of the operator, as written out for the warm start
  (\<^verbatim>\<open>h1\<close>, \<^verbatim>\<open>h2\<close>, \<^verbatim>\<open>Avx\<close>) and again in the loop
  (\<^verbatim>\<open>h_1\<close>, \<^verbatim>\<open>h_2\<close>, \<^verbatim>\<open>Avp_\<close>); \<^verbatim>\<open>Hvp_vec\<close> is called with its
  defaults and \<^verbatim>\<open>retain_graph=True\<close>.
\<close>

definition cg_apply ::
  "gtensor \<Rightarrow> gtensor \<Rightarrow> nat list \<Rightarrow> nat list \<Rightarrow> scalar \<Rightarrow> scalar \<Rightarrow> vec \<Rightarrow> vec comp" where
  "cg_apply grad_x grad_y x_params y_params lr_x lr_y v =
     bnd (Hvp_vec grad_x y_params v False True None None False) (\<lambda>h.
     bnd (Hvp_vec grad_y x_params (mul_float h lr_y) False True None None False) (\<lambda>h'.
     lift (bcast s_add v (mul_float h' lr_x))))"

text \<open>
  Initialisation: the tensor \<^verbatim>\<open>x\<close>, the residual \<^verbatim>\<open>r\<close> and the remaining
  \<^verbatim>\<open>nsteps\<close>.
\<close>

definition cg_init ::
  "gtensor \<Rightarrow> gtensor \<Rightarrow> nat list \<Rightarrow> nat list \<Rightarrow> tensor \<Rightarrow> tensor option \<Rightarrow> int option \<Rightarrow>
   scalar \<Rightarrow> scalar \<Rightarrow> (tensor \<times> vec \<times> int) comp" where
  "cg_init grad_x grad_y x_params y_params b x nsteps lr_x lr_y w =
     (let nsteps1 = (case nsteps of None \<Rightarrow> int (length (load w b)) | Some n \<Rightarrow> n) in
      case x of
        None \<Rightarrow>
          bnd (new_zeros (length (load w b))) (\<lambda>x0.
          bnd (read_tensor b) (\<lambda>bv.
          ret (x0, bv, nsteps1))) w
      | Some x0 \<Rightarrow>
          bnd (read_tensor x0) (\<lambda>xv.
          bnd (cg_apply grad_x grad_y x_params y_params lr_x lr_y xv) (\<lambda>Avx.
          bnd (read_tensor b) (\<lambda>bv.
          bnd (lift (bcast s_sub bv Avx)) (\<lambda>r.
          ret (x0, r, nsteps1 - 1))))) w)"

definition cg_body ::
  "gtensor \<Rightarrow> gtensor \<Rightarrow> nat list \<Rightarrow> nat list \<Rightarrow> scalar \<Rightarrow> scalar \<Rightarrow>
   tensor \<Rightarrow> scalar \<Rightarrow> scalar \<Rightarrow> cg_locals \<Rightarrow> (cg_locals \<times> bool) comp" where
  "cg_body grad_x grad_y x_params y_params lr_x lr_y x residual_tol atol st =
     bnd (cg_apply grad_x grad_y x_params y_params lr_x lr_y (loc_p st)) (\<lambda>Avp.
     bnd (lift (torch_dot (loc_p st) Avp)) (\<lambda>pAvp.
     bnd (data_add x (scale (s_div (loc_rdotr st) pAvp) (loc_p st))) (\<lambda>_.
     bnd (lift (bcast_inplace s_add (loc_r st)
                  (scale (s_neg (s_div (loc_rdotr st) pAvp)) Avp))) (\<lambda>r.
     bnd (lift (torch_dot r r)) (\<lambda>new_rdotr.
     bnd (lift (bcast s_add r (scale (s_div new_rdotr (loc_rdotr st)) (loc_p st)))) (\<lambda>p.
     ret (\<lparr>loc_r = r, loc_p = p, loc_rdotr = new_rdotr\<rparr>,
          s_less new_rdotr residual_tol \<or> s_less new_rdotr atol)))))))"

text \<open>
  From \<^verbatim>\<open>p = r.clone().detach()\<close> to the end. After a range of no iteration
  \<^verbatim>\<open>i\<close> was never bound, and \<^verbatim>\<open>if i > 99\<close> raises.
\<close>

definition cg_main ::
  "gtensor \<Rightarrow> gtensor \<Rightarrow> nat list \<Rightarrow> nat list \<Rightarrow> tensor \<Rightarrow> scalar \<Rightarrow> scalar \<Rightarrow> scalar \<Rightarrow> scalar \<Rightarrow>
   tensor \<Rightarrow> vec \<Rightarrow> int \<Rightarrow> (tensor \<times> nat) comp" where
  "cg_main grad_x grad_y x_params y_params b tol atol lr_x lr_y x r nsteps =
     bnd (lift (torch_dot r r)) (\<lambda>rdotr.
     bnd (read_tensor b) (\<lambda>bv.
     bnd (lift (torch_dot bv bv)) (\<lambda>bb.
       if s_less rdotr (s_mul tol bb) \<or> s_less rdotr atol then ret (x, 1)
       else
         (case nat nsteps of
            0 \<Rightarrow> lift (Inl (UnboundLocalError ''local variable i referenced before assignment''))
          | Suc k \<Rightarrow>
              bnd (for_range (cg_body grad_x grad_y x_params y_params lr_x lr_y x (s_mul tol bb) atol)
                     0 k \<lparr>loc_r = r, loc_p = r, loc_rdotr = rdotr\<rparr>) (\<lambda>i.
              bnd (if 99 < i then warn (i + 1) else ret ()) (\<lambda>_.
              ret (x, i + 1)))))))"

definition conjugate_gradient ::
  "gtensor \<Rightarrow> gtensor \<Rightarrow> nat list \<Rightarrow> nat list \<Rightarrow> tensor \<Rightarrow> tensor option \<Rightarrow> int option \<Rightarrow>
   scalar \<Rightarrow> scalar \<Rightarrow> scalar \<Rightarrow> scalar \<Rightarrow> (tensor \<times> nat) comp" where
  "conjugate_gradient grad_x grad_y x_params y_params b x nsteps tol atol lr_x lr_y =
     bnd (cg_init grad_x grad_y x_params y_params b x nsteps lr_x lr_y) (\<lambda>(x0, r, n).
     cg_main grad_x grad_y x_params y_params b tol atol lr_x lr_y x0 r n)"

subsection \<open>The preconditioned variant\<close>

text \<open>
  One application of the operator. \<open>lr_x\<close> is the local \<^verbatim>\<open>lr_x\<close> after
  \<^verbatim>\<open>lr_x = lr_x.sqrt()\<close>, a tensor of the solver's own; \<^verbatim>\<open>lr_y\<close> is the
  caller's tensor, read where \<^verbatim>\<open>mul_\<close> uses it.
\<close>

definition gcg_apply ::
  "gtensor \<Rightarrow> gtensor \<Rightarrow> nat list \<Rightarrow> nat list \<Rightarrow> scalar option \<Rightarrow> vec \<Rightarrow> tensor \<Rightarrow>
   nat option \<Rightarrow> nat option \<Rightarrow> bool \<Rightarrow> bool \<Rightarrow> vec \<Rightarrow> vec comp" where
  "gcg_apply grad_x grad_y x_params y_params trigger lr_x lr_y x_reducer y_reducer rebuild backward v =
     bnd (lift (bcast s_mul lr_x v)) (\<lambda>sv.
     bnd (Hvp_vec grad_x y_params sv backward True trigger y_reducer rebuild) (\<lambda>h.
     bnd (read_tensor lr_y) (\<lambda>ly.
     bnd (lift (bcast_inplace s_mul h ly)) (\<lambda>h1.
     bnd (Hvp_vec grad_y x_params h1 backward True trigger x_reducer rebuild) (\<lambda>h'.
     bnd (lift (bcast_inplace s_mul h' lr_x)) (\<lambda>h2.
     lift (bcast s_add v h2)))))))"

definition gcg_init ::
  "gtensor \<Rightarrow> gtensor \<Rightarrow> nat list \<Rightarrow> nat list \<Rightarrow> scalar option \<Rightarrow> tensor \<Rightarrow> vec \<Rightarrow> tensor \<Rightarrow>
   nat option \<Rightarrow> nat option \<Rightarrow> bool \<Rightarrow> bool \<Rightarrow> tensor option \<Rightarrow> int option \<Rightarrow>
   (tensor \<times> vec \<times> int) comp" where
  "gcg_init grad_x grad_y x_params y_params trigger b lr_x lr_y x_reducer y_reducer rebuild backward
     x nsteps w =
     (let nsteps1 = (case nsteps of None \<Rightarrow> int (length (load w b)) | Some n \<Rightarrow> n) in
      case x of
        None \<Rightarrow>
          bnd (new_zeros (length (load w b))) (\<lambda>x0.
          bnd (read_tensor b) (\<lambda>bv.
          ret (x0, bv, nsteps1))) w
      | Some x0 \<Rightarrow>
          bnd (read_tensor x0) (\<lambda>xv.
          bnd (gcg_apply grad_x grad_y x_params y_params trigger lr_x lr_y x_reducer y_reducer
                 rebuild backward xv) (\<lambda>Avx.
          bnd (read_tensor b) (\<lambda>bv.
          bnd (lift (bcast s_sub bv Avx)) (\<lambda>r.
          ret (x0, r, nsteps1 - 1))))) w)"

text \<open>The loop body; here the \<^verbatim>\<open>break\<close> comes before the update of \<^verbatim>\<open>p\<close>.\<close>

definition gcg_body ::
  "gtensor \<Rightarrow> gtensor \<Rightarrow> nat list \<Rightarrow> nat list \<Rightarrow> scalar option \<Rightarrow> vec \<Rightarrow> tensor \<Rightarrow>
   nat option \<Rightarrow> nat option \<Rightarrow> bool \<Rightarrow> bool \<Rightarrow>
   tensor \<Rightarrow> scalar \<Rightarrow> scalar \<Rightarrow> cg_locals \<Rightarrow> (cg_locals \<times> bool) comp" where
  "gcg_body grad_x grad_y x_params y_params trigger lr_x lr_y x_reducer y_reducer rebuild backward
     x residual_tol atol st =
     bnd (gcg_apply grad_x grad_y x_params y_params trigger lr_x lr_y x_reducer y_reducer
            rebuild backward (loc_p st)) (\<lambda>Avp.
     bnd (lift (torch_dot (loc_p st) Avp)) (\<lambda>pAvp.
     bnd (data_add x (scale (s_div (loc_rdotr st) pAvp) (loc_p st))) (\<lambda>_.
     bnd (lift (bcast_inplace s_add (loc_r st)
                  (scale (s_neg (s_div (loc_rdotr st) pAvp)) Avp))) (\<lambda>r.
     bnd (lift (torch_dot r r)) (\<lambda>new_rdotr.
       if s_less new_rdotr residual_tol \<or> s_less new_rdotr atol
       then ret (\<lparr>loc_r = r, loc_p = loc_p st, loc_rdotr = new_rdotr\<rparr>, True)
       else
         bnd (lift (bcast s_add r (scale (s_div new_rdotr (loc_rdotr st)) (loc_p st)))) (\<lambda>p.
         ret (\<lparr>loc_r = r, loc_p = p, loc_rdotr = new_rdotr\<rparr>, False)))))))"

text \<open>From the shape check to the end.\<close>

definition gcg_main ::
  "gtensor \<Rightarrow> gtensor \<Rightarrow> nat list \<Rightarrow> nat list \<Rightarrow> scalar option \<Rightarrow> tensor \<Rightarrow> vec \<Rightarrow> tensor \<Rightarrow>
   nat option \<Rightarrow> nat option \<Rightarrow> bool \<Rightarrow> bool \<Rightarrow> scalar \<Rightarrow> scalar \<Rightarrow>
   tensor \<Rightarrow> vec \<Rightarrow> int \<Rightarrow> (tensor \<times> nat) comp" where
  "gcg_main grad_x grad_y x_params y_params trigger b lr_x lr_y x_reducer y_reducer rebuild backward
     tol atol x r nsteps =
     bnd (read_tensor b) (\<lambda>bv.
       if g_shape grad_x \<noteq> [length bv]
       then lift (Inl (RuntimeError ''CG: hessian vector product shape mismatch''))
       else
         bnd (lift (torch_dot r r)) (\<lambda>rdotr.
         bnd (lift (torch_dot bv bv)) (\<lambda>bb.
           if s_less rdotr (s_mul tol bb) \<or> s_less rdotr atol then ret (x, 1)
           else
             (case nat nsteps of
                0 \<Rightarrow> lift (Inl (UnboundLocalError ''local variable i referenced before assignment''))
              | Suc k \<Rightarrow>
                  bnd (for_range
                         (gcg_body grad_x grad_y x_params y_params trigger lr_x lr_y x_reducer
                            y_reducer rebuild backward x (s_mul tol bb) atol)
                         0 k \<lparr>loc_r = r, loc_p = r, loc_rdotr = rdotr\<rparr>) (\<lambda>i.
                  bnd (if 100 < i then warn (i + 1) else ret ()) (\<lambda>_.
                  ret (x, i + 1)))))))"

definition general_conjugate_gradient ::
  "gtensor \<Rightarrow> gtensor \<Rightarrow> nat list \<Rightarrow> nat list \<Rightarrow> scalar option \<Rightarrow> tensor \<Rightarrow> tensor \<Rightarrow> tensor \<Rightarrow>
   nat option \<Rightarrow> nat option \<Rightarrow> bool \<Rightarrow> bool \<Rightarrow> tensor option \<Rightarrow> int option \<Rightarrow>
   scalar \<Rightarrow> scalar \<Rightarrow> (tensor \<times> nat) comp" where
  "general_conjugate_gradient grad_x grad_y x_params y_params trigger b lr_x lr_y
     x_reducer y_reducer rebuild backward x nsteps tol atol =
     bnd (read_tensor lr_x) (\<lambda>lx.
     bnd (gcg_init grad_x grad_y x_params y_params trigger b (map s_sqrt lx) lr_y
            x_reducer y_reducer rebuild backward x nsteps) (\<lambda>(x0, r, n).
     gcg_main grad_x grad_y x_params y_params trigger b (map s_sqrt lx) lr_y
       x_reducer y_reducer rebuild backward tol atol x0 r n))"

section \<open>Reference definitions and sample data\<close>

text \<open>
  What a parameter contributes when its buffer is read, and the parameter objects after
  the buffers of \<open>ps\<close> were deleted.
\<close>

definition grad_or_zeros :: "(nat \<Rightarrow> param) \<Rightarrow> nat \<Rightarrow> vec" where
  "grad_or_zeros s p = (case grad (s p) of Some g \<Rightarrow> g | None \<Rightarrow> zeros (numel (s p)))"

definition clear_grads :: "nat list \<Rightarrow> (nat \<Rightarrow> param) \<Rightarrow> (nat \<Rightarrow> param)" where
  "clear_grads ps s = (\<lambda>q. if q \<in> set ps then (s q)\<lparr>grad := None\<rparr> else s q)"

text \<open>
  The contributions of a parameter list read in order, each buffer being gone once it
  was read: an object that stands in the list a second time contributes zeros there.
\<close>

fun first_reads :: "(nat \<Rightarrow> param) \<Rightarrow> nat list \<Rightarrow> nat list \<Rightarrow> vec list" where
  "first_reads s seen [] = []"
| "first_reads s seen (p # ps) =
     (if p \<in> set seen then zeros (numel (s p)) else grad_or_zeros s p)
       # first_reads s (p # seen) ps"

text \<open>Sample data: parameter 0 has two elements and a gradient buffer, every other one
  is a scalar without a buffer.\<close>

definition ex_pstore :: "nat \<Rightarrow> param" where
  "ex_pstore p = (if p = 0 then \<lparr>numel = 2, grad = Some [Fin 5, Fin 7]\<rparr>
                  else \<lparr>numel = 1, grad = None\<rparr>)"

definition ex_world :: "vec list \<Rightarrow> (nat \<Rightarrow> param) \<Rightarrow> world" where
  "ex_world h s = \<lparr>heap = h, pstore = s, ddp_log = [], warnings = []\<rparr>"

text \<open>
  Sample gradient tensors: \<open>ex_grad\<close> has the identity as Jacobian with respect to a
  single parameter (the cotangent comes back unchanged), \<open>nan_grad\<close> a Jacobian that
  produces NaN.
\<close>

definition ex_grad :: "nat list \<Rightarrow> vec \<Rightarrow> gtensor" where
  "ex_grad sh d = \<lparr>g_shape = sh, g_data = d, g_vjp = (\<lambda>retain params vec. Inr [Some vec])\<rparr>"

definition nan_grad :: gtensor where
  "nan_grad = \<lparr>g_shape = [1], g_data = [Fin 1], g_vjp = (\<lambda>retain params vec. Inr [Some [NaN]])\<rparr>"

text \<open>
  Parameter objects of \<open>k\<close> elements without gradient buffers, and the default
  tolerances of the solvers (\<^verbatim>\<open>tol=1e-10\<close>, \<^verbatim>\<open>atol=1e-16\<close>).
\<close>

definition flat_pstore :: "nat \<Rightarrow> nat \<Rightarrow> param" where
  "flat_pstore k p = \<lparr>numel = k, grad = None\<rparr>"

definition default_tol :: scalar where
  "default_tol = Fin (1 / 10 ^ 10)"

definition default_atol :: scalar where
  "default_atol = Fin (1 / 10 ^ 16)"

text \<open>The all-ones tensor of length \<open>n\<close>.\<close>

definition ones :: "nat \<Rightarrow> vec" where
  "ones n = replicate n (Fin 1)"

text \<open>
  A parameter after \<^verbatim>\<open>zero_grad\<close>, a parameter after a gradient was accumulated
  into its buffer, and what a parameter contributes to the graph-mode result.
\<close>

definition zeroed :: "param \<Rightarrow> param" where
  "zeroed q = q\<lparr>grad := map_option (\<lambda>g. zeros (length g)) (grad q)\<rparr>"

definition contrib :: "(nat \<Rightarrow> param) \<Rightarrow> nat \<Rightarrow> vec option \<Rightarrow> vec" where
  "contrib s p go = (case go of None \<Rightarrow> zeros (numel (s p)) | Some g \<Rightarrow> g)"

definition accumulated :: "param \<Rightarrow> vec option \<Rightarrow> param" where
  "accumulated q go =
     (case go of None \<Rightarrow> q
      | Some v \<Rightarrow> q\<lparr>grad := (case grad q of None \<Rightarrow> Some v | Some old \<Rightarrow> Some (map2 s_add old v))\<rparr>)"


text \<open>
  Sample tensors: the view of the cells \<open>idx\<close> of storage \<open>s\<close>. Two tensors share
  memory when a cell of one storage belongs to both; a tensor lies in the heap when its
  storage and all its cells exist.
\<close>

definition view :: "nat \<Rightarrow> nat list \<Rightarrow> tensor" where
  "view s idx = \<lparr>t_storage = s, t_index = idx\<rparr>"

definition shares_cell :: "tensor \<Rightarrow> tensor \<Rightarrow> bool" where
  "shares_cell a b = (t_storage a = t_storage b \<and> list_ex (\<lambda>i. i \<in> set (t_index b)) (t_index a))"

definition in_heap :: "world \<Rightarrow> tensor \<Rightarrow> bool" where
  "in_heap w t =
     (t_storage t < length (heap w)
      \<and> list_all (\<lambda>i. i < length (heap w ! t_storage t)) (t_index t))"

text \<open>
  The operator of the preconditioned variant in the words of the specification,
  \<open>A(p) = p + sqrt(lr_x) * D_xy (lr_y * D_yx (sqrt(lr_x) * p))\<close>, over the two Hvp oracles
  \<open>D_yx\<close> and \<open>D_xy\<close>: the probe is scaled by \<open>sqrt(lr_x)\<close> before the first oracle,
  the intermediate result is scaled by \<open>lr_y\<close>, the second result by \<open>sqrt(lr_x)\<close> again,
  and \<open>p\<close> is added. \<open>lr_x\<close> is the value of the caller's tensor, \<open>lr_y\<close> the
  caller's tensor itself.
\<close>

definition spec_operator ::
  "(vec \<Rightarrow> vec comp) \<Rightarrow> (vec \<Rightarrow> vec comp) \<Rightarrow> vec \<Rightarrow> tensor \<Rightarrow> vec \<Rightarrow> vec comp" where
  "spec_operator D_yx D_xy lr_x lr_y p =
     bnd (lift (bcast s_mul (map s_sqrt lr_x) p)) (\<lambda>u.
     bnd (D_yx u) (\<lambda>h.
     bnd (read_tensor lr_y) (\<lambda>ly.
     bnd (lift (bcast_inplace s_mul h ly)) (\<lambda>h1.
     bnd (D_xy h1) (\<lambda>h'.
     bnd (lift (bcast_inplace s_mul h' (map s_sqrt lr_x))) (\<lambda>h2.
     lift (bcast s_add p h2)))))))"

text \<open>
  The control flow of \<^verbatim>\<open>general_conjugate_gradient\<close> over an operator \<open>A\<close> that is
  given as a function: initialisation, shape check, convergence test and loop as in the
  source, with a call of \<open>A\<close> at the two places where the source writes the operator
  out.
\<close>

definition over_init ::
  "(vec \<Rightarrow> vec comp) \<Rightarrow> tensor \<Rightarrow> tensor option \<Rightarrow> int option \<Rightarrow> (tensor \<times> vec \<times> int) comp" where
  "over_init A b x nsteps w =
     (let nsteps1 = (case nsteps of None \<Rightarrow> int (length (load w b)) | Some n \<Rightarrow> n) in
      case x of
        None \<Rightarrow>
          bnd (new_zeros (length (load w b))) (\<lambda>x0.
          bnd (read_tensor b) (\<lambda>bv.
          ret (x0, bv, nsteps1))) w
      | Some x0 \<Rightarrow>
          bnd (read_tensor x0) (\<lambda>xv.
          bnd (A xv) (\<lambda>Avx.
          bnd (read_tensor b) (\<lambda>bv.
          bnd (lift (bcast s_sub bv Avx)) (\<lambda>r.
          ret (x0, r, nsteps1 - 1))))) w)"

definition over_body ::
  "(vec \<Rightarrow> vec comp) \<Rightarrow> tensor \<Rightarrow> scalar \<Rightarrow> scalar \<Rightarrow> cg_locals \<Rightarrow> (cg_locals \<times> bool) comp" where
  "over_body A x residual_tol atol st =
     bnd (A (loc_p st)) (\<lambda>Avp.
     bnd (lift (torch_dot (loc_p st) Avp)) (\<lambda>pAvp.
     bnd (data_add x (scale (s_div (loc_rdotr st) pAvp) (loc_p st))) (\<lambda>_.
     bnd (lift (bcast_inplace s_add (loc_r st)
                  (scale (s_neg (s_div (loc_rdotr st) pAvp)) Avp))) (\<lambda>r.
     bnd (lift (torch_dot r r)) (\<lambda>new_rdotr.
       if s_less new_rdotr residual_tol \<or> s_less new_rdotr atol
       then ret (\<lparr>loc_r = r, loc_p = loc_p st, loc_rdotr = new_rdotr\<rparr>, True)
       else
         bnd (lift (bcast s_add r (scale (s_div new_rdotr (loc_rdotr st)) (loc_p st)))) (\<lambda>p.
         ret (\<lparr>loc_r = r, loc_p = p, loc_rdotr = new_rdotr\<rparr>, False)))))))"

definition over_main ::
  "gtensor \<Rightarrow> (vec \<Rightarrow> vec comp) \<Rightarrow> tensor \<Rightarrow> scalar \<Rightarrow> scalar \<Rightarrow> tensor \<Rightarrow> vec \<Rightarrow> int \<Rightarrow>
   (tensor \<times> nat) comp" where
  "over_main grad_x A b tol atol x r nsteps =
     bnd (read_tensor b) (\<lambda>bv.
       if g_shape grad_x \<noteq> [length bv]
       then lift (Inl (RuntimeError ''CG: hessian vector product shape mismatch''))
       else
         bnd (lift (torch_dot r r)) (\<lambda>rdotr.
         bnd (lift (torch_dot bv bv)) (\<lambda>bb.
           if s_less rdotr (s_mul tol bb) \<or> s_less rdotr atol then ret (x, 1)
           else
             (case nat nsteps of
                0 \<Rightarrow> lift (Inl (UnboundLocalError ''local variable i referenced before assignment''))
              | Suc k \<Rightarrow>
                  bnd (for_range (over_body A x (s_mul tol bb) atol)
                         0 k \<lparr>loc_r = r, loc_p = r, loc_rdotr = rdotr\<rparr>) (\<lambda>i.
                  bnd (if 100 < i then warn (i + 1) else ret ()) (\<lambda>_.
                  ret (x, i + 1)))))))"

definition general_cg_over ::
  "(vec \<Rightarrow> vec comp) \<Rightarrow> gtensor \<Rightarrow> tensor \<Rightarrow> tensor option \<Rightarrow> int option \<Rightarrow> scalar \<Rightarrow> scalar \<Rightarrow>
   (tensor \<times> nat) comp" where
  "general_cg_over A grad_x b x nsteps tol atol =
     bnd (over_init A b x nsteps) (\<lambda>(x0, r, n).
     over_main grad_x A b tol atol x0 r n)"

text \<open>
  A sample gradient tensor whose Jacobian is the diagonal matrix of \<open>d\<close>.
\<close>

definition diag_grad :: "vec \<Rightarrow> gtensor" where
  "diag_grad d = \<lparr>g_shape = [length d], g_data = d,
                  g_vjp = (\<lambda>retain params vec. Inr [Some (map2 s_mul d vec)])\<rparr>"

text \<open>A sample gradient tensor of any shape whose graph reaches no parameter.\<close>

definition detached_grad :: "nat list \<Rightarrow> vec \<Rightarrow> gtensor" where
  "detached_grad sh d =
     \<lparr>g_shape = sh, g_data = d, g_vjp = (\<lambda>retain params vec. Inr (map (\<lambda>_. None) params))\<rparr>"



section \<open>The gradient vectorizer\<close>

lemmas comp_defs = bnd_def ret_def lift_def read_tensor_def new_zeros_def data_add_def
  store_cells_def load_def warn_def

lemmas tensor_defs = bcast_def bcast_inplace_def torch_dot_def dotv_def scale_def mul_float_def
  zeros_def has_nan_def torch_cat_def inf_signed_def s_sub_def

lemmas hvp_defs = Hvp_vec_def Hvp_compute_def autograd_grad_def autograd_backward_def
  vectorize_grad_def zero_grad_def reducer_calls_def

lemma clear_grads_Cons_None:
  "grad (clear_grads seen s p) = None \<Longrightarrow> clear_grads (p # seen) s = clear_grads seen s"
  by (auto simp: clear_grads_def fun_eq_iff)

lemma clear_grads_Cons_upd:
  "(clear_grads seen s)(p := (clear_grads seen s p)\<lparr>grad := None\<rparr>) = clear_grads (p # seen) s"
  by (auto simp: clear_grads_def fun_eq_iff)

lemma clear_grads_swap: "set a = set b \<Longrightarrow> clear_grads a s = clear_grads b s"
  by (simp add: clear_grads_def)

lemma clear_grads_Nil: "clear_grads [] s = s"
  by (simp add: clear_grads_def)

lemma vectorize_grad_loop_reads:
  "vectorize_grad_loop ps acc (clear_grads seen s) =
     (acc @ first_reads s seen ps, clear_grads (seen @ ps) s)"
proof (induction ps arbitrary: acc seen)
  case Nil
  show ?case by simp
next
  case (Cons p ps)
  have sw: "clear_grads (p # seen @ ps) s = clear_grads (seen @ p # ps) s"
    by (rule clear_grads_swap) auto
  show ?case
  proof (cases "grad (clear_grads seen s p)")
    case None
    have hd: "zeros (numel (clear_grads seen s p)) =
        (if p \<in> set seen then zeros (numel (s p)) else grad_or_zeros s p)"
      using None by (auto simp: clear_grads_def grad_or_zeros_def)
    have "vectorize_grad_loop (p # ps) acc (clear_grads seen s) =
        vectorize_grad_loop ps (acc @ [zeros (numel (clear_grads seen s p))])
          (clear_grads (p # seen) s)"
      using None by (simp add: clear_grads_Cons_None)
    also have "\<dots> =
        ((acc @ [zeros (numel (clear_grads seen s p))]) @ first_reads s (p # seen) ps,
         clear_grads ((p # seen) @ ps) s)"
      by (rule Cons.IH)
    finally show ?thesis using hd sw by simp
  next
    case (Some g)
    have hd: "g = (if p \<in> set seen then zeros (numel (s p)) else grad_or_zeros s p)"
      using Some by (auto simp: clear_grads_def grad_or_zeros_def split: if_splits)
    have "vectorize_grad_loop (p # ps) acc (clear_grads seen s) =
        vectorize_grad_loop ps (acc @ [g]) (clear_grads (p # seen) s)"
      using Some by (simp add: clear_grads_Cons_upd)
    also have "\<dots> = ((acc @ [g]) @ first_reads s (p # seen) ps, clear_grads ((p # seen) @ ps) s)"
      by (rule Cons.IH)
    finally show ?thesis using hd sw by simp
  qed
qed

lemma vectorize_grad_loop_eq:
  "vectorize_grad_loop ps [] s = (first_reads s [] ps, clear_grads ps s)"
  using vectorize_grad_loop_reads[of ps "[]" "[]" s] by (simp add: clear_grads_Nil)

lemma first_reads_distinct:
  "distinct ps \<Longrightarrow> set seen \<inter> set ps = {} \<Longrightarrow> first_reads s seen ps = map (grad_or_zeros s) ps"
  by (induction ps arbitrary: seen) auto






text \<open>A parameter object that stands twice in the list is read once.\<close>

lemma vectorize_grad_repeated_parameter:
  "fst (vectorize_grad [0, 0] (ex_world [] ex_pstore)) = Inr [Fin 5, Fin 7, Fin 0, Fin 0]"
  by (simp add: vectorize_grad_def torch_cat_def ex_world_def ex_pstore_def zeros_def
      eval_nat_numeral)

section \<open>The Hvp oracle\<close>

text \<open>
  C4. A NaN in \<^verbatim>\<open>grad_vec\<close> or in \<^verbatim>\<open>vec\<close> makes \<^verbatim>\<open>Hvp_vec\<close> fail at
  once with the \<^verbatim>\<open>ValueError\<close> of the input checks: the state is untouched and the
  result is the same whatever the differentiation would do (\<open>f\<close> is any graph). With
  NaN-free inputs, a computed output that holds a NaN is not returned: the call fails with
  the \<^verbatim>\<open>ValueError\<close> of the output check.
\<close>

theorem Hvp_vec_nan_checks:
  "(has_nan (g_data grad_vec) \<or> has_nan vec \<longrightarrow>
      Hvp_vec (grad_vec\<lparr>g_vjp := f\<rparr>) params vec backward retain_graph trigger reducer rebuild w =
        (Inl (ValueError (if has_nan (g_data grad_vec) then ''Gradvec nan'' else ''vector nan'')), w))
   \<and> (\<not> has_nan (g_data grad_vec) \<and> \<not> has_nan vec
        \<and> Hvp_compute grad_vec params vec backward retain_graph trigger reducer rebuild w = (Inr hvp, w')
        \<and> has_nan hvp \<longrightarrow>
      Hvp_vec grad_vec params vec backward retain_graph trigger reducer rebuild w =
        (Inl (ValueError ''hvp Nan''), w'))"
  by (simp add: Hvp_vec_def)

theorem Hvp_vec_nan_checks_witness:
  "has_nan [NaN]
   \<and> Hvp_vec (ex_grad [1] [Fin 3]) [1] [NaN] False True None None False (ex_world [] ex_pstore) =
       (Inl (ValueError ''vector nan''), ex_world [] ex_pstore)
   \<and> \<not> has_nan (g_data nan_grad) \<and> \<not> has_nan [Fin 1]
   \<and> Hvp_compute nan_grad [1] [Fin 1] False True None None False (ex_world [] ex_pstore) =
       (Inr [NaN], ex_world [] ex_pstore)
   \<and> Hvp_vec nan_grad [1] [Fin 1] False True None None False (ex_world [] ex_pstore) =
       (Inl (ValueError ''hvp Nan''), ex_world [] ex_pstore)"
proof -
  have a: "has_nan [NaN]" by (simp add: has_nan_def)
  have b: "\<not> has_nan (g_data nan_grad) \<and> \<not> has_nan [Fin 1]
      \<and> Hvp_compute nan_grad [1] [Fin 1] False True None None False (ex_world [] ex_pstore) =
          (Inr [NaN], ex_world [] ex_pstore)
      \<and> has_nan [NaN]"
    by (simp add: has_nan_def nan_grad_def Hvp_compute_def autograd_grad_def torch_cat_def)
  note t1 = Hvp_vec_nan_checks[of "ex_grad [1] [Fin 3]" "[NaN]" "g_vjp (ex_grad [1] [Fin 3])" "[1]"
      False True None None False "ex_world [] ex_pstore", THEN conjunct1]
  note t2 = Hvp_vec_nan_checks[of nan_grad "[Fin 1]" _ "[1]" False True None None False
      "ex_world [] ex_pstore" "[NaN]" "ex_world [] ex_pstore", THEN conjunct2, rule_format, OF b]
  have c: "\<not> has_nan (g_data (ex_grad [1] [Fin 3]))" by (simp add: has_nan_def ex_grad_def)
  show ?thesis using a b c t1 t2 by simp
qed

text \<open>
  C7, at the input where the code leaves it. In accumulation mode without a reducer and
  with the default \<^verbatim>\<open>trigger=None\<close> the call does not function: the argument
  \<^verbatim>\<open>grad_vec + 0.0 * trigger\<close> raises a \<^verbatim>\<open>TypeError\<close>, where the graph-mode
  call on the same \<^verbatim>\<open>grad_vec\<close>, \<^verbatim>\<open>params\<close> and \<^verbatim>\<open>vec\<close> returns the
  product.
\<close>

theorem Hvp_vec_backward_default_trigger:
  "Hvp_vec (ex_grad [1] [Fin 3]) [1] [Fin 1] False False None None False (ex_world [] ex_pstore) =
     (Inr [Fin 1], ex_world [] ex_pstore)
   \<and> Hvp_vec (ex_grad [1] [Fin 3]) [1] [Fin 1] True False None None False (ex_world [] ex_pstore) =
     (Inl (TypeError ''unsupported operand type(s) for *: float and NoneType''),
      ex_world [] ex_pstore)"
  by (simp add: ex_grad_def ex_world_def ex_pstore_def hvp_defs has_nan_def torch_cat_def)




section \<open>The operator of the preconditioned variant\<close>

lemmas cg_defs = conjugate_gradient_def cg_init_def cg_main_def cg_body_def cg_apply_def

lemmas gcg_defs = general_conjugate_gradient_def gcg_init_def gcg_main_def gcg_body_def gcg_apply_def

lemmas ex_defs = ex_grad_def ex_world_def flat_pstore_def default_tol_def default_atol_def view_def

lemma s_mul_commute: "s_mul a b = s_mul b a"
  by (cases a; cases b) (simp_all add: mult.commute)

lemma map2_s_mul_commute: "map2 s_mul a b = map2 s_mul b a"
proof (induction a arbitrary: b)
  case Nil
  show ?case by simp
next
  case (Cons x xs)
  show ?case using Cons.IH by (cases b) (simp_all add: s_mul_commute)
qed

lemma gcg_apply_spec:
  "gcg_apply gx gy xps yps tr (map s_sqrt lx) ly xrd yrd rb bw =
   spec_operator (\<lambda>v. Hvp_vec gx yps v bw True tr yrd rb) (\<lambda>v. Hvp_vec gy xps v bw True tr xrd rb)
     lx ly"
  by (rule ext) (simp add: gcg_apply_def spec_operator_def)

lemma gcg_init_over:
  "gcg_init gx gy xps yps tr b s ly xrd yrd rb bw x nsteps =
   over_init (gcg_apply gx gy xps yps tr s ly xrd yrd rb bw) b x nsteps"
  by (rule ext) (simp add: gcg_init_def over_init_def)

lemma gcg_body_over:
  "gcg_body gx gy xps yps tr s ly xrd yrd rb bw x rt atol =
   over_body (gcg_apply gx gy xps yps tr s ly xrd yrd rb bw) x rt atol"
  by (rule ext) (simp add: gcg_body_def over_body_def)

lemma gcg_main_over:
  "gcg_main gx gy xps yps tr b s ly xrd yrd rb bw tol atol x r n =
   over_main gx (gcg_apply gx gy xps yps tr s ly xrd yrd rb bw) b tol atol x r n"
  unfolding gcg_main_def over_main_def gcg_body_over by (rule refl)

lemma spec_operator_value:
  assumes "length lx = length p"
    and "D_yx (map2 s_mul (map s_sqrt lx) p) w0 = (Inr h1, w1)"
    and "length (load w1 ly) = length h1"
    and "D_xy (map2 s_mul (load w1 ly) h1) w1 = (Inr h2, w2)"
    and "length h2 = length p"
  shows "spec_operator D_yx D_xy lx ly p w0 =
         (Inr (map2 s_add p (map2 s_mul (map s_sqrt lx) h2)), w2)"
proof -
  have a: "bcast s_mul (map s_sqrt lx) p = Inr (map2 s_mul (map s_sqrt lx) p)"
    using assms(1) by (simp add: bcast_def)
  have b: "bcast_inplace s_mul h1 (load w1 ly) = Inr (map2 s_mul (load w1 ly) h1)"
    using assms(3) by (simp add: bcast_inplace_def map2_s_mul_commute)
  have c: "bcast_inplace s_mul h2 (map s_sqrt lx) = Inr (map2 s_mul (map s_sqrt lx) h2)"
    using assms(1,5) by (simp add: bcast_inplace_def map2_s_mul_commute)
  have d: "bcast s_add p (map2 s_mul (map s_sqrt lx) h2) =
      Inr (map2 s_add p (map2 s_mul (map s_sqrt lx) h2))"
    using assms(1,5) by (simp add: bcast_def)
  show ?thesis
    by (simp add: spec_operator_def bnd_def lift_def read_tensor_def a assms(2) b assms(4) c d)
qed

text \<open>
  C1. \<^verbatim>\<open>general_conjugate_gradient\<close> is the conjugate-gradient iteration over the
  operator of the specification: on every input it does what \<open>general_cg_over\<close> does,
  whose every operator application (the one of the warm start and the one of each loop
  iteration) is \<open>spec_operator\<close> over the two Hvp oracles at the value the caller's
  \<^verbatim>\<open>lr_x\<close> has at the call, the square root of \<^verbatim>\<open>lr_x = lr_x.sqrt()\<close> being
  taken inside the operator. And an application of that operator to \<open>p\<close>, when both
  oracle calls succeed on operands of matching length, yields
  \<open>p + sqrt lr_x * D_xy (lr_y * D_yx (sqrt lr_x * p))\<close>, all products and the sum taken
  elementwise.
\<close>

theorem general_solver_operator:
  "general_conjugate_gradient grad_x grad_y x_params y_params trigger b lr_x lr_y
     x_reducer y_reducer rebuild backward x nsteps tol atol w =
   general_cg_over
     (spec_operator (\<lambda>v. Hvp_vec grad_x y_params v backward True trigger y_reducer rebuild)
                    (\<lambda>v. Hvp_vec grad_y x_params v backward True trigger x_reducer rebuild)
                    (load w lr_x) lr_y)
     grad_x b x nsteps tol atol w
   \<and> (length lx = length p
      \<and> D_yx (map2 s_mul (map s_sqrt lx) p) w0 = (Inr h1, w1)
      \<and> length (load w1 ly) = length h1
      \<and> D_xy (map2 s_mul (load w1 ly) h1) w1 = (Inr h2, w2)
      \<and> length h2 = length p
      \<longrightarrow> spec_operator D_yx D_xy lx ly p w0 =
            (Inr (map2 s_add p (map2 s_mul (map s_sqrt lx) h2)), w2))"
proof
  show "general_conjugate_gradient grad_x grad_y x_params y_params trigger b lr_x lr_y
     x_reducer y_reducer rebuild backward x nsteps tol atol w =
   general_cg_over
     (spec_operator (\<lambda>v. Hvp_vec grad_x y_params v backward True trigger y_reducer rebuild)
                    (\<lambda>v. Hvp_vec grad_y x_params v backward True trigger x_reducer rebuild)
                    (load w lr_x) lr_y)
     grad_x b x nsteps tol atol w"
    by (simp add: general_conjugate_gradient_def general_cg_over_def gcg_init_over gcg_main_over
        gcg_apply_spec bnd_def read_tensor_def)
  show "length lx = length p
      \<and> D_yx (map2 s_mul (map s_sqrt lx) p) w0 = (Inr h1, w1)
      \<and> length (load w1 ly) = length h1
      \<and> D_xy (map2 s_mul (load w1 ly) h1) w1 = (Inr h2, w2)
      \<and> length h2 = length p
      \<longrightarrow> spec_operator D_yx D_xy lx ly p w0 =
            (Inr (map2 s_add p (map2 s_mul (map s_sqrt lx) h2)), w2)"
    using spec_operator_value by blast
qed

theorem general_solver_operator_witness:
  "general_cg_over
     (spec_operator (\<lambda>v. Hvp_vec (ex_grad [1] [Fin 3]) [1] v False True None None False)
                    (\<lambda>v. Hvp_vec (ex_grad [1] [Fin 2]) [0] v False True None None False)
                    (load (ex_world [[Fin 13], [Fin 4], [Fin 3]] (flat_pstore 1)) (view 1 [0]))
                    (view 2 [0]))
     (ex_grad [1] [Fin 3]) (view 0 [0]) None (Some 1) default_tol default_atol
     (ex_world [[Fin 13], [Fin 4], [Fin 3]] (flat_pstore 1)) =
     (Inr (view 3 [0], 1), ex_world [[Fin 13], [Fin 4], [Fin 3], [Fin 1]] (flat_pstore 1))
   \<and> spec_operator (\<lambda>v. Hvp_vec (ex_grad [1] [Fin 3]) [1] v False True None None False)
                    (\<lambda>v. Hvp_vec (ex_grad [1] [Fin 2]) [0] v False True None None False)
                    [Fin 4] (view 2 [0]) [Fin 1]
        (ex_world [[Fin 13], [Fin 4], [Fin 3]] (flat_pstore 1)) =
     (Inr [Fin 13], ex_world [[Fin 13], [Fin 4], [Fin 3]] (flat_pstore 1))"
proof -
  let ?W = "ex_world [[Fin 13], [Fin 4], [Fin 3]] (flat_pstore 1)"
  let ?gx = "ex_grad [1] [Fin 3]" and ?gy = "ex_grad [1] [Fin 2]"
  have s: "sqrt 4 = 2" using real_sqrt_abs[of 2] by simp
  have g: "general_conjugate_gradient ?gx ?gy [0] [1] None (view 0 [0]) (view 1 [0]) (view 2 [0])
      None None False False None (Some 1) default_tol default_atol ?W =
      (Inr (view 3 [0], 1), ex_world [[Fin 13], [Fin 4], [Fin 3], [Fin 1]] (flat_pstore 1))"
    by (simp add: gcg_defs ex_defs comp_defs tensor_defs hvp_defs s)
  have h1: "Hvp_vec ?gx [1] (map2 s_mul (map s_sqrt [Fin 4]) [Fin 1]) False True None None False ?W
      = (Inr [Fin 2], ?W)"
    by (simp add: ex_defs tensor_defs hvp_defs s)
  have l: "length (load ?W (view 2 [0])) = length [Fin 2]" by (simp add: load_def view_def)
  have h2: "Hvp_vec ?gy [0] (map2 s_mul (load ?W (view 2 [0])) [Fin 2]) False True None None False ?W
      = (Inr [Fin 6], ?W)"
    by (simp add: ex_defs tensor_defs hvp_defs load_def)
  note t = general_solver_operator[where grad_x = ?gx and grad_y = ?gy and x_params = "[0]"
      and y_params = "[1]" and trigger = None and b = "view 0 [0]" and lr_x = "view 1 [0]"
      and lr_y = "view 2 [0]" and x_reducer = None and y_reducer = None and rebuild = False
      and backward = False and x = None and nsteps = "Some 1" and tol = default_tol
      and atol = default_atol and w = ?W and lx = "[Fin 4]" and p = "[Fin 1]"
      and D_yx = "\<lambda>v. Hvp_vec ?gx [1] v False True None None False"
      and D_xy = "\<lambda>v. Hvp_vec ?gy [0] v False True None None False"
      and ?w0.0 = ?W and ?h1.0 = "[Fin 2]" and ?w1.0 = ?W and ly = "view 2 [0]"
      and ?h2.0 = "[Fin 6]" and ?w2.0 = ?W]
  from t g h1 l h2 show ?thesis by (simp add: s)
qed

section \<open>The solvers: what a call leaves untouched\<close>

lemma bnd_keeps:
  assumes "\<And>w. F (snd (m w)) = F w" and "\<And>a w. F (snd (f a w)) = F w"
  shows "F (snd (bnd m f w)) = F w"
proof (cases "m w")
  case (Pair r w')
  have h: "F w' = F w" using assms(1)[of w] Pair by simp
  show ?thesis
  proof (cases r)
    case (Inl e)
    then show ?thesis using Pair h by (simp add: bnd_def)
  next
    case (Inr a)
    then show ?thesis using Pair h assms(2)[of a w'] by (simp add: bnd_def)
  qed
qed

lemmas bnd_heap = bnd_keeps[where F = heap]


lemma length_load: "length (load w t) = length (t_index t)"
  by (simp add: load_def)

lemma load_cong: "heap w' = heap w \<Longrightarrow> load w' t = load w t"
  by (simp add: load_def)

lemma load_append:
  "t_storage t < length (heap w) \<Longrightarrow> heap w' = heap w @ e \<Longrightarrow> load w' t = load w t"
  by (simp add: load_def nth_append)

lemma lift_heap: "heap (snd (lift r w)) = heap w"
  by (simp add: lift_def)

lemma ret_heap: "heap (snd (ret a w)) = heap w"
  by (simp add: ret_def)

lemma read_tensor_heap: "heap (snd (read_tensor a w)) = heap w"
  by (simp add: read_tensor_def)

lemma warn_heap: "heap (snd (warn n w)) = heap w"
  by (simp add: warn_def)

lemma vectorize_grad_heap: "heap (snd (vectorize_grad ps w)) = heap w"
  by (simp add: vectorize_grad_def split: prod.splits)

lemma autograd_backward_heap: "heap (snd (autograd_backward g v ps rg w)) = heap w"
  by (simp add: autograd_backward_def split: sum.splits)

lemma Hvp_compute_heap: "heap (snd (Hvp_compute g ps v bw rg tr rd rb w)) = heap w"
proof -
  have z: "heap (reducer_calls rd rb (zero_grad ps w)) = heap w"
    by (simp add: reducer_calls_def zero_grad_def split: option.splits)
  have b: "heap (snd (bnd (autograd_backward g v ps rg) (\<lambda>_. vectorize_grad ps) w1)) = heap w1" for w1
    by (rule bnd_heap) (simp_all add: autograd_backward_heap vectorize_grad_heap)
  show ?thesis using z b
    by (simp add: Hvp_compute_def Let_def split: option.splits sum.splits)
qed

lemma Hvp_vec_heap: "heap (snd (Hvp_vec g ps v bw rg tr rd rb w)) = heap w"
  using Hvp_compute_heap[of g ps v bw rg tr rd rb w]
  by (cases "Hvp_compute g ps v bw rg tr rd rb w") (auto simp: Hvp_vec_def split: sum.splits)

lemma cg_apply_heap: "heap (snd (cg_apply gx gy xps yps lx ly v w)) = heap w"
  unfolding cg_apply_def
  by (intro bnd_heap Hvp_vec_heap lift_heap)


lemma cg_init_heap:
  "heap (snd (cg_init gx gy xps yps b x nsteps lx ly w)) =
     (case x of None \<Rightarrow> heap w @ [zeros (length (t_index b))] | Some x0 \<Rightarrow> heap w)"
proof (cases x)
  case None
  then show ?thesis
    by (simp add: cg_init_def bnd_def new_zeros_def read_tensor_def ret_def length_load)
next
  case (Some x0)
  have "heap (snd (bnd (read_tensor x0) (\<lambda>xv.
          bnd (cg_apply gx gy xps yps lx ly xv) (\<lambda>Avx.
          bnd (read_tensor b) (\<lambda>bv. bnd (lift (bcast s_sub bv Avx)) (\<lambda>r. ret (x0, r, n))))) w))
        = heap w" for n
    by (intro bnd_heap cg_apply_heap lift_heap read_tensor_heap ret_heap)
  then show ?thesis using Some by (simp add: cg_init_def Let_def)
qed


lemma init_load:
  "t_storage t < length (heap w) \<Longrightarrow>
   heap w' = (case x of None \<Rightarrow> heap w @ [z] | Some x0 \<Rightarrow> heap w) \<Longrightarrow> load w' t = load w t"
  by (cases x) (simp_all add: load_def nth_append)

lemma cg_init_tensor:
  "cg_init gx gy xps yps b x nsteps lx ly w = (Inr (xr, r, n), w1) \<Longrightarrow>
   xr = (case x of None \<Rightarrow> \<lparr>t_storage = length (heap w), t_index = [0..<length (t_index b)]\<rparr>
         | Some x0 \<Rightarrow> x0)"
  by (cases x)
     (auto simp: cg_init_def Let_def comp_defs split: sum.splits prod.splits)


section \<open>The solvers: shape check, early exit, empty range\<close>

text \<open>
  C2, as the code has it. The shape check stands in \<^verbatim>\<open>general_conjugate_gradient\<close>
  only, after the initialisation. There a call in which \<^verbatim>\<open>grad_x\<close> and \<^verbatim>\<open>b\<close>
  differ in shape never returns a result: it fails with the shape-mismatch
  \<^verbatim>\<open>RuntimeError\<close>, unless the initialisation of a warm start (the operator
  application \<open>A(x0)\<close> or the subtraction \<open>b - A(x0)\<close>) has failed before and its error
  is the one raised.
\<close>

theorem general_shape_mismatch:
  assumes "g_shape grad_x \<noteq> [length (t_index b)]"
  shows "\<exists>e. fst (general_conjugate_gradient grad_x grad_y x_params y_params trigger b lr_x lr_y
                   x_reducer y_reducer rebuild backward x nsteps tol atol w) = Inl e
     \<and> (e = RuntimeError ''CG: hessian vector product shape mismatch''
        \<or> (x \<noteq> None
           \<and> fst (gcg_init grad_x grad_y x_params y_params trigger b (map s_sqrt (load w lr_x)) lr_y
                   x_reducer y_reducer rebuild backward x nsteps w) = Inl e))"
proof -
  let ?init = "gcg_init grad_x grad_y x_params y_params trigger b (map s_sqrt (load w lr_x)) lr_y
                   x_reducer y_reducer rebuild backward x nsteps w"
  obtain res w1 where i: "?init = (res, w1)" by (cases ?init)
  show ?thesis
  proof (cases res)
    case (Inl e)
    have "x \<noteq> None" using i Inl
      by (cases x) (auto simp: gcg_init_def Let_def bnd_def new_zeros_def read_tensor_def ret_def)
    then show ?thesis using i Inl
      by (simp add: general_conjugate_gradient_def bnd_def read_tensor_def)
  next
    case (Inr v)
    obtain xr r n where v: "v = (xr, r, n)" by (cases v)
    show ?thesis using i Inr v assms
      by (simp add: general_conjugate_gradient_def gcg_main_def bnd_def read_tensor_def lift_def
          length_load)
  qed
qed

text \<open>
  C5, as the code has it. When the initialisation has succeeded and the residual passes
  the convergence test, the solver returns \<open>(x, 1)\<close> in the state the initialisation
  left, no iteration being run; in the preconditioned variant provided the shape check
  between the initialisation and the test passes.
\<close>

theorem early_exit:
  "(cg_init grad_x grad_y x_params y_params b x nsteps lr_x lr_y w = (Inr (xr, r, n), w1)
    \<and> (s_less (dotv r r) (s_mul tol (dotv (load w1 b) (load w1 b))) \<or> s_less (dotv r r) atol)
    \<longrightarrow> conjugate_gradient grad_x grad_y x_params y_params b x nsteps tol atol lr_x lr_y w =
          (Inr (xr, 1), w1))
   \<and> (gcg_init grad_x grad_y x_params y_params trigger b (map s_sqrt (load w lrx)) lry
         x_reducer y_reducer rebuild backward x nsteps w = (Inr (xr, r, n), w1)
      \<and> g_shape grad_x = [length (load w1 b)]
      \<and> (s_less (dotv r r) (s_mul tol (dotv (load w1 b) (load w1 b))) \<or> s_less (dotv r r) atol)
      \<longrightarrow> general_conjugate_gradient grad_x grad_y x_params y_params trigger b lrx lry
            x_reducer y_reducer rebuild backward x nsteps tol atol w = (Inr (xr, 1), w1))"
  by (auto simp: conjugate_gradient_def general_conjugate_gradient_def cg_main_def gcg_main_def
      bnd_def read_tensor_def lift_def ret_def torch_dot_def)

lemma foldl_add_zeros: "foldl s_add (Fin 0) (replicate k (Fin 0)) = Fin 0"
  by (induction k) simp_all

lemma dotv_zeros: "dotv (zeros k) (zeros k) = Fin 0"
proof -
  have "map2 s_mul (replicate k (Fin 0)) (replicate k (Fin 0)) = replicate k (Fin 0)"
    by (induction k) simp_all
  then show ?thesis by (simp add: dotv_def zeros_def foldl_add_zeros)
qed

text \<open>
  The special case of a warm start with the exact solution: the residual is zero, and any
  positive \<^verbatim>\<open>atol\<close> ends the solve with count 1.
\<close>

lemma exact_warm_start:
  "(cg_init grad_x grad_y x_params y_params b (Some x0) nsteps lr_x lr_y w =
      (Inr (xr, zeros k, n), w1)
    \<and> s_less (Fin 0) atol
    \<longrightarrow> conjugate_gradient grad_x grad_y x_params y_params b (Some x0) nsteps tol atol lr_x lr_y w =
          (Inr (xr, 1), w1))
   \<and> (gcg_init grad_x grad_y x_params y_params trigger b (map s_sqrt (load w lrx)) lry
         x_reducer y_reducer rebuild backward (Some x0) nsteps w = (Inr (xr, zeros k, n), w1)
      \<and> g_shape grad_x = [length (load w1 b)]
      \<and> s_less (Fin 0) atol
      \<longrightarrow> general_conjugate_gradient grad_x grad_y x_params y_params trigger b lrx lry
            x_reducer y_reducer rebuild backward (Some x0) nsteps tol atol w = (Inr (xr, 1), w1))"
  by (auto simp: conjugate_gradient_def general_conjugate_gradient_def cg_main_def gcg_main_def
      bnd_def read_tensor_def lift_def ret_def torch_dot_def dotv_zeros)

text \<open>
  \<^verbatim>\<open>conjugate_gradient\<close> has no shape check: with \<^verbatim>\<open>grad_x\<close> of shape
  \<open>[2]\<close>, a warm start of two elements and \<^verbatim>\<open>b\<close> of shape \<open>[1]\<close> the residual
  is broadcast and the solve returns a result after one iteration.
\<close>

theorem unscaled_solver_ignores_shape:
  "g_shape (ex_grad [2] [Fin 3, Fin 3]) \<noteq> [length (t_index (view 0 [0]))]
   \<and> conjugate_gradient (ex_grad [2] [Fin 3, Fin 3]) (ex_grad [2] [Fin 2, Fin 2]) [0] [1]
       (view 0 [0]) (Some (view 1 [0, 1])) (Some 3) default_tol default_atol (Fin 1) (Fin 1)
       (ex_world [[Fin 1], [Fin 0, Fin 0]] (flat_pstore 2)) =
     (Inr (view 1 [0, 1], 1), ex_world [[Fin 1], [Fin (1/2), Fin (1/2)]] (flat_pstore 2))"
  by (simp add: cg_defs ex_defs comp_defs tensor_defs hvp_defs)

theorem general_shape_mismatch_witness:
  "g_shape (ex_grad [2] [Fin 3, Fin 3]) \<noteq> [length (t_index (view 0 [0]))]
   \<and> fst (general_conjugate_gradient (ex_grad [2] [Fin 3, Fin 3]) (ex_grad [2] [Fin 2, Fin 2])
        [0] [1] None (view 0 [0]) (view 2 [0, 1]) (view 2 [0, 1])
        None None False False (Some (view 1 [0, 1])) (Some 3) default_tol default_atol
        (ex_world [[Fin 1], [Fin 0, Fin 0], [Fin 1, Fin 1]] (flat_pstore 2))) =
      Inl (RuntimeError ''CG: hessian vector product shape mismatch'')"
proof -
  let ?w = "ex_world [[Fin 1], [Fin 0, Fin 0], [Fin 1, Fin 1]] (flat_pstore 2)"
  have b: "g_shape (ex_grad [2] [Fin 3, Fin 3]) \<noteq> [length (t_index (view 0 [0]))]"
    by (simp add: ex_defs)
  have i: "fst (gcg_init (ex_grad [2] [Fin 3, Fin 3]) (ex_grad [2] [Fin 2, Fin 2]) [0] [1] None
       (view 0 [0]) (map s_sqrt (load ?w (view 2 [0, 1]))) (view 2 [0, 1]) None None False False
       (Some (view 1 [0, 1])) (Some 3) ?w) = Inr (view 1 [0, 1], [Fin 1, Fin 1], 2)"
    by (simp add: gcg_defs ex_defs comp_defs tensor_defs hvp_defs)
  from general_shape_mismatch[OF b, where grad_y = "ex_grad [2] [Fin 2, Fin 2]"
      and x_params = "[0]" and y_params = "[1]" and trigger = None and lr_x = "view 2 [0, 1]"
      and lr_y = "view 2 [0, 1]" and x_reducer = None and y_reducer = None and rebuild = False
      and backward = False and x = "Some (view 1 [0, 1])" and nsteps = "Some 3"
      and tol = default_tol and atol = default_atol and w = ?w]
  show ?thesis using b i by auto
qed

text \<open>
  A warm start whose residual is zero, in a call of the preconditioned variant whose
  \<^verbatim>\<open>grad_x\<close> and \<^verbatim>\<open>b\<close> differ in shape: the convergence test would pass, the
  shape check before it raises.
\<close>

theorem general_converged_but_shape_error:
  "gcg_init (ex_grad [2] [Fin 3, Fin 3]) (ex_grad [2] [Fin 2, Fin 2]) [0] [1] None (view 0 [0])
       (map s_sqrt (load (ex_world [[Fin 1], [Fin (1/2), Fin (1/2)], [Fin 1, Fin 1]] (flat_pstore 2))
          (view 2 [0, 1])))
       (view 2 [0, 1]) None None False False (Some (view 1 [0, 1])) None
       (ex_world [[Fin 1], [Fin (1/2), Fin (1/2)], [Fin 1, Fin 1]] (flat_pstore 2)) =
     (Inr (view 1 [0, 1], [Fin 0, Fin 0], 0),
      ex_world [[Fin 1], [Fin (1/2), Fin (1/2)], [Fin 1, Fin 1]] (flat_pstore 2))
   \<and> s_less (dotv [Fin 0, Fin 0] [Fin 0, Fin 0]) default_atol
   \<and> fst (general_conjugate_gradient (ex_grad [2] [Fin 3, Fin 3]) (ex_grad [2] [Fin 2, Fin 2])
        [0] [1] None (view 0 [0]) (view 2 [0, 1]) (view 2 [0, 1])
        None None False False (Some (view 1 [0, 1])) None default_tol default_atol
        (ex_world [[Fin 1], [Fin (1/2), Fin (1/2)], [Fin 1, Fin 1]] (flat_pstore 2))) =
      Inl (RuntimeError ''CG: hessian vector product shape mismatch'')"
  by (simp add: gcg_defs ex_defs comp_defs tensor_defs hvp_defs)

theorem early_exit_witness:
  "conjugate_gradient (ex_grad [1] [Fin 3]) (ex_grad [1] [Fin 2]) [0] [1] (view 0 [0])
       (Some (view 1 [0])) None default_tol default_atol (Fin 1) (Fin 1)
       (ex_world [[Fin 1], [Fin (1/2)], [Fin 1]] (flat_pstore 1)) =
     (Inr (view 1 [0], 1), ex_world [[Fin 1], [Fin (1/2)], [Fin 1]] (flat_pstore 1))
   \<and> general_conjugate_gradient (ex_grad [1] [Fin 3]) (ex_grad [1] [Fin 2]) [0] [1] None
        (view 0 [0]) (view 2 [0]) (view 2 [0])
        None None False False (Some (view 1 [0])) None default_tol default_atol
        (ex_world [[Fin 1], [Fin (1/2)], [Fin 1]] (flat_pstore 1)) =
     (Inr (view 1 [0], 1), ex_world [[Fin 1], [Fin (1/2)], [Fin 1]] (flat_pstore 1))"
proof -
  let ?w = "ex_world [[Fin 1], [Fin (1/2)], [Fin 1]] (flat_pstore 1)"
  let ?gx = "ex_grad [1] [Fin 3]" and ?gy = "ex_grad [1] [Fin 2]"
  have i1: "cg_init ?gx ?gy [0] [1] (view 0 [0]) (Some (view 1 [0])) None (Fin 1) (Fin 1) ?w =
      (Inr (view 1 [0], [Fin 0], 0), ?w)"
    by (simp add: cg_defs ex_defs comp_defs tensor_defs hvp_defs)
  have i2: "gcg_init ?gx ?gy [0] [1] None (view 0 [0]) (map s_sqrt (load ?w (view 2 [0])))
      (view 2 [0]) None None False False (Some (view 1 [0])) None ?w =
      (Inr (view 1 [0], [Fin 0], 0), ?w)"
    by (simp add: gcg_defs ex_defs comp_defs tensor_defs hvp_defs)
  have c: "s_less (dotv [Fin 0] [Fin 0]) default_atol" by (simp add: dotv_def default_atol_def)
  have s: "g_shape ?gx = [length (load ?w (view 0 [0]))]" by (simp add: ex_defs load_def)
  note t = early_exit[where grad_x = ?gx and grad_y = ?gy and x_params = "[0]" and y_params = "[1]"
      and b = "view 0 [0]" and x = "Some (view 1 [0])" and nsteps = None and lr_x = "Fin 1"
      and lr_y = "Fin 1" and w = ?w and xr = "view 1 [0]" and r = "[Fin 0]" and n = 0 and ?w1.0 = ?w
      and tol = default_tol and atol = default_atol and trigger = None and lrx = "view 2 [0]"
      and lry = "view 2 [0]" and x_reducer = None and y_reducer = None and rebuild = False
      and backward = False]
  from t i1 i2 c s show ?thesis by simp
qed

text \<open>
  C3, at the input where the code leaves it. A warm start with \<^verbatim>\<open>nsteps = 1\<close>
  that has not converged leaves \<^verbatim>\<open>range(0)\<close> to iterate over; the loop variable is
  never bound and the test \<^verbatim>\<open>i > 99\<close> (\<^verbatim>\<open>i > 100\<close>) after the loop raises, in
  both variants, where the claim has the solve return \<open>(x, 1)\<close>.
\<close>

theorem zero_iterations_unbound:
  "fst (conjugate_gradient (ex_grad [1] [Fin 3]) (ex_grad [1] [Fin 2]) [0] [1] (view 0 [0])
       (Some (view 1 [0])) (Some 1) default_tol default_atol (Fin 1) (Fin 1)
       (ex_world [[Fin 1], [Fin 0], [Fin 1]] (flat_pstore 1))) =
     Inl (UnboundLocalError ''local variable i referenced before assignment'')
  \<and> fst (general_conjugate_gradient (ex_grad [1] [Fin 3]) (ex_grad [1] [Fin 2]) [0] [1] None
        (view 0 [0]) (view 2 [0]) (view 2 [0])
        None None False False (Some (view 1 [0])) (Some 1) default_tol default_atol
        (ex_world [[Fin 1], [Fin 0], [Fin 1]] (flat_pstore 1))) =
     Inl (UnboundLocalError ''local variable i referenced before assignment'')"
  by (simp add: cg_defs gcg_defs ex_defs comp_defs tensor_defs hvp_defs)

text \<open>
  An error of the initialisation that comes before the shape check: with \<^verbatim>\<open>grad_x\<close>
  of shape \<open>[2]\<close>, a warm start of two elements and \<^verbatim>\<open>b\<close> of three, the
  operator application succeeds and the subtraction \<^verbatim>\<open>b.clone() - Avx\<close> raises.
\<close>

lemma general_init_error_before_check:
  "g_shape (ex_grad [2] [Fin 3, Fin 3]) \<noteq> [length (t_index (view 0 [0, 1, 2]))]
   \<and> fst (general_conjugate_gradient (ex_grad [2] [Fin 3, Fin 3]) (ex_grad [2] [Fin 2, Fin 2])
        [0] [1] None (view 0 [0, 1, 2]) (view 2 [0, 1]) (view 2 [0, 1])
        None None False False (Some (view 1 [0, 1])) None default_tol default_atol
        (ex_world [[Fin 1, Fin 1, Fin 1], [Fin 0, Fin 0], [Fin 1, Fin 1]] (flat_pstore 2))) =
      Inl (RuntimeError ''The size of tensor a must match the size of tensor b'')"
  by (simp add: gcg_defs ex_defs comp_defs tensor_defs hvp_defs eval_nat_numeral)

section \<open>The solvers: the tensors of the caller\<close>

lemma store_cells_Cons:
  "store_cells (i # idx) (s # u) buf = store_cells idx u (buf[i := s])"
  by (simp add: store_cells_def)

lemma store_cells_Nil: "store_cells [] u buf = buf" "store_cells idx [] buf = buf"
  by (simp_all add: store_cells_def)

lemma store_cells_length: "length (store_cells idx u buf) = length buf"
proof (induction idx arbitrary: u buf)
  case Nil
  show ?case by (simp add: store_cells_Nil)
next
  case (Cons i idx)
  show ?case by (cases u) (simp_all add: store_cells_Nil store_cells_Cons Cons.IH)
qed

lemma store_cells_other: "j \<notin> set idx \<Longrightarrow> store_cells idx u buf ! j = buf ! j"
proof (induction idx arbitrary: u buf)
  case Nil
  show ?case by (simp add: store_cells_Nil)
next
  case (Cons i idx)
  then show ?case by (cases u) (simp_all add: store_cells_Nil store_cells_Cons)
qed


lemma data_add_other:
  assumes "\<not> shares_cell t x"
  shows "load (snd (data_add x v w)) t = load w t"
proof (cases "t_storage t = t_storage x")
  case False
  then show ?thesis
    by (auto simp: data_add_def load_def split: sum.splits)
next
  case True
  have nin: "\<forall>i \<in> set (t_index t). i \<notin> set (t_index x)"
    using assms True by (auto simp: shares_cell_def list_ex_iff)
  show ?thesis
  proof (cases "t_storage x < length (heap w)")
    case False
    then show ?thesis by (auto simp: data_add_def load_def list_update_beyond split: sum.splits)
  next
    case lt: True
    show ?thesis using True nin lt
      by (auto simp: data_add_def load_def store_cells_other split: sum.splits)
  qed
qed


lemma cg_apply_load: "load (snd (cg_apply gx gy xps yps lx ly v w)) t = load w t"
  by (simp add: load_def cg_apply_heap)


lemma lift_load: "load (snd (lift r w)) t = load w t"
  by (simp add: lift_def)

lemma ret_load: "load (snd (ret a w)) t = load w t"
  by (simp add: ret_def)



lemmas keeps_load = bnd_keeps[where F = "\<lambda>w. load w t" for t]

lemma cg_body_other:
  "\<not> shares_cell t x \<Longrightarrow>
   load (snd (cg_body gx gy xps yps lx ly x rt atol st w)) t = load w t"
  unfolding cg_body_def
  by (intro keeps_load cg_apply_load lift_load ret_load data_add_other)






lemma in_heap_cong: "heap w' = heap w \<Longrightarrow> in_heap w' t = in_heap w t"
  by (simp add: in_heap_def)












lemma fresh_apart:
  "t_storage b < length (heap w) \<Longrightarrow>
   \<not> shares_cell b \<lparr>t_storage = length (heap w), t_index = idx\<rparr>"
  by (simp add: shares_cell_def)










text \<open>
  The same with a warm start that is another tensor than \<^verbatim>\<open>b\<close> and overlaps it:
  \<^verbatim>\<open>b\<close> is the view of the cells 0 and 1 of a storage, the warm start the view of
  the cells 1 and 2.
\<close>

lemma warm_start_view_overwrites_b:
  "view 0 [1, 2] \<noteq> view 0 [0, 1]
   \<and> load (ex_world [[Fin 1, Fin 1, Fin 0]] (flat_pstore 2)) (view 0 [0, 1]) = [Fin 1, Fin 1]
   \<and> load (snd (conjugate_gradient (ex_grad [2] [Fin 3, Fin 3]) (ex_grad [2] [Fin 2, Fin 2]) [0] [1]
       (view 0 [0, 1]) (Some (view 0 [1, 2])) (Some 2) default_tol default_atol (Fin 1) (Fin 1)
       (ex_world [[Fin 1, Fin 1, Fin 0]] (flat_pstore 2)))) (view 0 [0, 1]) \<noteq> [Fin 1, Fin 1]"
  by (simp add: cg_defs ex_defs comp_defs tensor_defs hvp_defs)

section \<open>The two variants at unit learning rates\<close>

lemma s_mul_one_right: "s_mul x (Fin 1) = x"
  by (cases x) (simp_all add: inf_signed_def)

lemma s_mul_one_left: "s_mul (Fin 1) x = x"
  by (cases x) (simp_all add: inf_signed_def)

lemma mul_float_one: "mul_float h (Fin 1) = h"
  by (simp add: mul_float_def s_mul_one_right)

lemma map2_ones_left: "length v = n \<Longrightarrow> map2 s_mul (ones n) v = v"
  by (rule nth_equalityI) (simp_all add: ones_def s_mul_one_left)

lemma map2_ones_right: "length h = m \<Longrightarrow> map2 s_mul h (ones m) = h"
  by (rule nth_equalityI) (simp_all add: ones_def s_mul_one_right)

lemma sqrt_ones: "map s_sqrt (ones n) = ones n"
  by (simp add: ones_def)

lemma length_ones: "length (ones n) = n"
  by (simp add: ones_def)

lemma bcast_ones_left:
  assumes "k = 1 \<or> length v = k"
  shows "bcast s_mul (ones k) v = Inr v"
proof (cases "length v = k")
  case True
  then show ?thesis by (simp add: bcast_def length_ones map2_ones_left)
next
  case False
  then have k: "k = 1" using assms by simp
  have "map (s_mul (Fin 1)) v = v" by (induction v) (simp_all add: s_mul_one_left)
  then show ?thesis using False k by (simp add: bcast_def ones_def)
qed

lemma bcast_inplace_ones:
  assumes "k = 1 \<or> length h = k"
  shows "bcast_inplace s_mul h (ones k) = Inr h"
proof (cases "length h = k")
  case True
  then show ?thesis by (simp add: bcast_inplace_def length_ones map2_ones_right)
next
  case False
  then have k: "k = 1" using assms by simp
  then show ?thesis using False by (simp add: bcast_inplace_def ones_def s_mul_one_right)
qed

lemma bcast_inplace_length: "bcast_inplace f a b = Inr u \<Longrightarrow> length u = length a"
  by (auto simp: bcast_inplace_def split: if_splits)

lemma bcast_same: "length a = length b \<Longrightarrow> bcast f a b = Inr (map2 f a b)"
  by (simp add: bcast_def)

lemma length_scale: "length (scale c v) = length v"
  by (simp add: scale_def)

lemma Hvp_vec_graph:
  "Hvp_vec g ps v False rg tr rd rb w = (fst (Hvp_vec g ps v False rg None None False w), w)"
  by (auto simp: Hvp_vec_def Hvp_compute_def split: sum.splits)

lemma Hvp_vec_graph_pstore:
  "pstore w' = pstore w \<Longrightarrow>
   fst (Hvp_vec g ps v False rg None None False w') = fst (Hvp_vec g ps v False rg None None False w)"
  by (auto simp: Hvp_vec_def Hvp_compute_def split: sum.splits)

lemma cg_apply_world: "snd (cg_apply gx gy xps yps lx ly v w) = w"
proof -
  have a: "snd (bnd (Hvp_vec g ps u False True None None False) f w0) = w0"
    if "\<And>h w1. snd (f h w1) = w1" for g ps u w0 and f :: "vec \<Rightarrow> vec comp"
    using that Hvp_vec_graph[of g ps u True None None False w0]
    by (cases "fst (Hvp_vec g ps u False True None None False w0)") (simp_all add: bnd_def)
  show ?thesis unfolding cg_apply_def
    by (intro a) (simp add: lift_def)
qed

lemma apply_agree:
  assumes Hx: "ky = 1 \<or> (\<forall>v h. fst (Hvp_vec gx yps v False True None None False w0) = Inr h
                 \<longrightarrow> length h = ky)"
    and Hy: "kx = 1 \<or> (\<forall>v h. fst (Hvp_vec gy xps v False True None None False w0) = Inr h
                 \<longrightarrow> length h = kx)"
    and ps: "pstore w = pstore w0"
    and v: "kx = 1 \<or> length v = kx"
    and ly: "load w lry = ones ky"
  shows "gcg_apply gx gy xps yps tr (ones kx) lry xrd yrd rb False v w =
         cg_apply gx gy xps yps (Fin 1) (Fin 1) v w"
proof -
  let ?H1 = "fst (Hvp_vec gx yps v False True None None False w)"
  have sv: "bcast s_mul (ones kx) v = Inr v" by (rule bcast_ones_left[OF v])
  have g1: "Hvp_vec gx yps v False True tr yrd rb w = (?H1, w)" by (rule Hvp_vec_graph)
  have c1: "Hvp_vec gx yps v False True None None False w = (?H1, w)" by (rule Hvp_vec_graph)
  show ?thesis
  proof (cases ?H1)
    case (Inl e)
    then show ?thesis using sv g1 c1
      by (simp add: gcg_apply_def cg_apply_def bnd_def lift_def)
  next
    case (Inr h)
    have "fst (Hvp_vec gx yps v False True None None False w0) = Inr h"
      using Inr Hvp_vec_graph_pstore[OF ps, of gx yps v True] by simp
    then have "ky = 1 \<or> length h = ky" using Hx by blast
    then have hb: "bcast_inplace s_mul h (ones ky) = Inr h" by (rule bcast_inplace_ones)
    let ?H2 = "fst (Hvp_vec gy xps h False True None None False w)"
    have g2: "Hvp_vec gy xps h False True tr xrd rb w = (?H2, w)" by (rule Hvp_vec_graph)
    have c2: "Hvp_vec gy xps h False True None None False w = (?H2, w)" by (rule Hvp_vec_graph)
    show ?thesis
    proof (cases ?H2)
      case (Inl e)
      then show ?thesis using sv g1 c1 \<open>?H1 = Inr h\<close> hb g2 c2 ly
        by (simp add: gcg_apply_def cg_apply_def bnd_def lift_def read_tensor_def mul_float_one)
    next
      case h': (Inr h')
      have "fst (Hvp_vec gy xps h False True None None False w0) = Inr h'"
        using h' Hvp_vec_graph_pstore[OF ps, of gy xps h True] by simp
      then have "kx = 1 \<or> length h' = kx" using Hy by blast
      then have hb': "bcast_inplace s_mul h' (ones kx) = Inr h'" by (rule bcast_inplace_ones)
      show ?thesis using sv g1 c1 \<open>?H1 = Inr h\<close> hb g2 c2 h' hb' ly
        by (simp add: gcg_apply_def cg_apply_def bnd_def lift_def read_tensor_def mul_float_one)
    qed
  qed
qed

lemma cg_apply_length:
  assumes Hy: "kx = 1 \<or> (\<forall>v h. fst (Hvp_vec gy xps v False True None None False w0) = Inr h
                 \<longrightarrow> length h = kx)"
    and ps: "pstore w = pstore w0"
    and v: "kx = 1 \<or> length v = kx"
    and r: "cg_apply gx gy xps yps (Fin 1) (Fin 1) v w = (Inr a, w')"
  shows "kx = 1 \<or> length a = kx"
proof (cases "kx = 1")
  case True
  then show ?thesis by simp
next
  case False
  then have lv: "length v = kx" using v by simp
  let ?H1 = "fst (Hvp_vec gx yps v False True None None False w)"
  have c1: "Hvp_vec gx yps v False True None None False w = (?H1, w)" by (rule Hvp_vec_graph)
  obtain h where h: "?H1 = Inr h" using r c1 by (cases ?H1) (auto simp: cg_apply_def bnd_def)
  let ?H2 = "fst (Hvp_vec gy xps h False True None None False w)"
  have c2: "Hvp_vec gy xps h False True None None False w = (?H2, w)" by (rule Hvp_vec_graph)
  obtain h' where h': "?H2 = Inr h'"
    using r c1 h c2 by (cases ?H2) (auto simp: cg_apply_def bnd_def mul_float_one)
  have "fst (Hvp_vec gy xps h False True None None False w0) = Inr h'"
    using h' Hvp_vec_graph_pstore[OF ps, of gy xps h True] by simp
  then have lh: "length h' = kx" using Hy False by blast
  have "a = map2 s_add v h'" using r c1 h c2 h' lv lh
    by (simp add: cg_apply_def bnd_def lift_def mul_float_one bcast_def)
  then show ?thesis using lv lh by simp
qed

lemma data_add_pstore: "pstore (snd (data_add x v w)) = pstore w"
  by (simp add: data_add_def split: sum.splits)

lemma cg_body_pstore: "pstore (snd (cg_body gx gy xps yps lx ly x rt atol st w)) = pstore w"
  unfolding cg_body_def
  by (intro bnd_keeps[where F = pstore])
     (simp_all add: cg_apply_world lift_def ret_def data_add_pstore)

lemma body_agree:
  assumes ag: "gcg_apply gx gy xps yps tr (ones kx) lry xrd yrd rb False (loc_p st) w =
               cg_apply gx gy xps yps (Fin 1) (Fin 1) (loc_p st) w"
    and pr: "length (loc_p st) = length (loc_r st)"
  shows "gcg_body gx gy xps yps tr (ones kx) lry xrd yrd rb False x rt atol st w =
           (case cg_body gx gy xps yps (Fin 1) (Fin 1) x rt atol st w of
              (Inl e, w') \<Rightarrow> (Inl e, w')
            | (Inr (st', brk), w') \<Rightarrow>
                (Inr (if brk then st'\<lparr>loc_p := loc_p st\<rparr> else st', brk), w'))"
proof -
  have tail: "bcast s_add r' (scale c (loc_p st)) = Inr (map2 s_add r' (scale c (loc_p st)))"
    if "length r' = length (loc_r st)" for r' c
    using that pr by (simp add: bcast_def length_scale)
  show ?thesis
    by (auto simp: gcg_body_def cg_body_def ag bnd_def lift_def ret_def tail
        dest!: bcast_inplace_length split: sum.splits prod.splits)
qed

lemma body_lengths:
  assumes pr: "length (loc_p st) = length (loc_r st)"
    and c: "cg_body gx gy xps yps lx ly x rt atol st w = (Inr (st', brk), w')"
  shows "length (loc_p st') = length (loc_p st) \<and> length (loc_r st') = length (loc_p st)"
proof -
  have tail: "bcast s_add r' (scale c (loc_p st)) = Inr (map2 s_add r' (scale c (loc_p st)))"
    if "length r' = length (loc_r st)" for r' c
    using that pr by (simp add: bcast_def length_scale)
  show ?thesis using c pr
    by (auto simp: cg_body_def bnd_def lift_def ret_def tail length_scale
        dest!: bcast_inplace_length split: sum.splits prod.splits)
qed

lemma loop_agree:
  assumes Hx: "ky = 1 \<or> (\<forall>v h. fst (Hvp_vec gx yps v False True None None False w0) = Inr h
                 \<longrightarrow> length h = ky)"
    and Hy: "kx = 1 \<or> (\<forall>v h. fst (Hvp_vec gy xps v False True None None False w0) = Inr h
                 \<longrightarrow> length h = kx)"
    and ne: "\<not> shares_cell lry x"
  shows "length (loc_p st) = length (loc_r st) \<Longrightarrow> kx = 1 \<or> length (loc_p st) = kx \<Longrightarrow>
     load w lry = ones ky \<Longrightarrow> pstore w = pstore w0 \<Longrightarrow>
     for_range (gcg_body gx gy xps yps tr (ones kx) lry xrd yrd rb False x rt atol) i k st w =
     for_range (cg_body gx gy xps yps (Fin 1) (Fin 1) x rt atol) i k st w"
proof (induction k arbitrary: i st w)
  case 0
  let ?c = "cg_body gx gy xps yps (Fin 1) (Fin 1) x rt atol st w"
  have ag: "gcg_apply gx gy xps yps tr (ones kx) lry xrd yrd rb False (loc_p st) w =
            cg_apply gx gy xps yps (Fin 1) (Fin 1) (loc_p st) w"
    by (rule apply_agree[OF Hx Hy "0.prems"(4) "0.prems"(2) "0.prems"(3)])
  note b = body_agree[OF ag "0.prems"(1), where x = x and rt = rt and atol = atol]
  show ?case
  proof (cases ?c)
    case (Pair res w')
    show ?thesis using b Pair by (cases res) (auto split: prod.splits)
  qed
next
  case (Suc k)
  let ?c = "cg_body gx gy xps yps (Fin 1) (Fin 1) x rt atol st w"
  have ag: "gcg_apply gx gy xps yps tr (ones kx) lry xrd yrd rb False (loc_p st) w =
            cg_apply gx gy xps yps (Fin 1) (Fin 1) (loc_p st) w"
    by (rule apply_agree[OF Hx Hy Suc.prems(4) Suc.prems(2) Suc.prems(3)])
  note b = body_agree[OF ag Suc.prems(1), where x = x and rt = rt and atol = atol]
  show ?case
  proof (cases ?c)
    case (Pair res w')
    show ?thesis
    proof (cases res)
      case (Inl e)
      then show ?thesis using b Pair by simp
    next
      case (Inr v)
      obtain st' brk where v: "v = (st', brk)" by (cases v)
      have c: "?c = (Inr (st', brk), w')" using Pair Inr v by simp
      note len = body_lengths[OF Suc.prems(1) c]
      have ly': "load w' lry = ones ky"
        using cg_body_other[OF ne, of gx gy xps yps "Fin 1" "Fin 1" rt atol st w] c Suc.prems(3)
        by simp
      have ps': "pstore w' = pstore w0"
        using cg_body_pstore[of gx gy xps yps "Fin 1" "Fin 1" x rt atol st w] c Suc.prems(4)
        by simp
      show ?thesis
      proof (cases brk)
        case True
        then show ?thesis using b c by simp
      next
        case False
        have "for_range (gcg_body gx gy xps yps tr (ones kx) lry xrd yrd rb False x rt atol) (Suc i) k st' w' =
              for_range (cg_body gx gy xps yps (Fin 1) (Fin 1) x rt atol) (Suc i) k st' w'"
          using len Suc.prems(2) ly' ps' by (intro Suc.IH) auto
        then show ?thesis using b c False by simp
      qed
    qed
  qed
qed

lemma main_agree:
  assumes Hx: "ky = 1 \<or> (\<forall>v h. fst (Hvp_vec gx yps v False True None None False w0) = Inr h
                 \<longrightarrow> length h = ky)"
    and Hy: "kx = 1 \<or> (\<forall>v h. fst (Hvp_vec gy xps v False True None None False w0) = Inr h
                 \<longrightarrow> length h = kx)"
    and ne: "\<not> shares_cell lry x"
    and r: "kx = 1 \<or> length r = kx"
    and ly: "load w lry = ones ky"
    and ps: "pstore w = pstore w0"
    and sh: "g_shape gx = [length (t_index b)]"
  shows "fst (gcg_main gx gy xps yps tr b (ones kx) lry xrd yrd rb False tol atol x r nsteps w) =
         fst (cg_main gx gy xps yps b tol atol (Fin 1) (Fin 1) x r nsteps w)
       \<and> heap (snd (gcg_main gx gy xps yps tr b (ones kx) lry xrd yrd rb False tol atol x r nsteps w)) =
         heap (snd (cg_main gx gy xps yps b tol atol (Fin 1) (Fin 1) x r nsteps w))"
proof -
  let ?bb = "dotv (load w b) (load w b)"
  let ?st = "\<lparr>loc_r = r, loc_p = r, loc_rdotr = dotv r r\<rparr>"
  show ?thesis
  proof (cases "s_less (dotv r r) (s_mul tol ?bb) \<or> s_less (dotv r r) atol")
    case True
    then show ?thesis using sh
      by (auto simp: gcg_main_def cg_main_def bnd_def read_tensor_def lift_def ret_def torch_dot_def
          length_load)
  next
    case False
    show ?thesis
    proof (cases "nat nsteps")
      case 0
      then show ?thesis using sh False
        by (simp add: gcg_main_def cg_main_def bnd_def read_tensor_def lift_def ret_def torch_dot_def
            length_load)
    next
      case (Suc k)
      let ?L = "for_range (cg_body gx gy xps yps (Fin 1) (Fin 1) x (s_mul tol ?bb) atol) 0 k ?st w"
      have l: "for_range (gcg_body gx gy xps yps tr (ones kx) lry xrd yrd rb False x (s_mul tol ?bb) atol)
                 0 k ?st w = ?L"
        using r ly ps by (intro loop_agree[OF Hx Hy ne]) simp_all
      obtain res w' where L: "?L = (res, w')" by (cases ?L)
      show ?thesis using sh False Suc l L
        by (cases res)
           (simp_all add: gcg_main_def cg_main_def bnd_def read_tensor_def lift_def ret_def
              torch_dot_def warn_def length_load)
    qed
  qed
qed

lemma init_agree:
  assumes Hx: "ky = 1 \<or> (\<forall>v h. fst (Hvp_vec gx yps v False True None None False w) = Inr h
                 \<longrightarrow> length h = ky)"
    and Hy: "kx = 1 \<or> (\<forall>v h. fst (Hvp_vec gy xps v False True None None False w) = Inr h
                 \<longrightarrow> length h = kx)"
    and ly: "load w lry = ones ky"
    and xl: "case x of None \<Rightarrow> True | Some x0 \<Rightarrow> kx = 1 \<or> length (t_index x0) = kx"
  shows "gcg_init gx gy xps yps tr b (ones kx) lry xrd yrd rb False x nsteps w =
         cg_init gx gy xps yps b x nsteps (Fin 1) (Fin 1) w"
proof (cases x)
  case None
  then show ?thesis by (simp add: gcg_init_def cg_init_def)
next
  case (Some x0)
  have lx: "kx = 1 \<or> length (load w x0) = kx" using xl Some by (simp add: length_load)
  have ag: "gcg_apply gx gy xps yps tr (ones kx) lry xrd yrd rb False (load w x0) w =
      cg_apply gx gy xps yps (Fin 1) (Fin 1) (load w x0) w"
    by (rule apply_agree[OF Hx Hy refl lx ly])
  show ?thesis using Some ag
    by (simp add: gcg_init_def cg_init_def bnd_def read_tensor_def)
qed

lemma cg_init_pstore: "pstore (snd (cg_init gx gy xps yps b x nsteps lx ly w)) = pstore w"
proof (cases x)
  case None
  then show ?thesis
    by (simp add: cg_init_def bnd_def new_zeros_def read_tensor_def ret_def)
next
  case (Some x0)
  have "pstore (snd (bnd (read_tensor x0) (\<lambda>xv.
          bnd (cg_apply gx gy xps yps lx ly xv) (\<lambda>Avx.
          bnd (read_tensor b) (\<lambda>bv. bnd (lift (bcast s_sub bv Avx)) (\<lambda>r. ret (x0, r, n))))) w))
        = pstore w" for n
    by (intro bnd_keeps[where F = pstore])
       (simp_all add: cg_apply_world read_tensor_def lift_def ret_def)
  then show ?thesis using Some by (simp add: cg_init_def Let_def)
qed

lemma init_result:
  assumes Hy: "kx = 1 \<or> (\<forall>v h. fst (Hvp_vec gy xps v False True None None False w) = Inr h
                 \<longrightarrow> length h = kx)"
    and xl: "case x of None \<Rightarrow> kx = 1 \<or> length (t_index b) = kx
             | Some x0 \<Rightarrow> kx = 1 \<or> length (t_index x0) = kx"
    and i: "cg_init gx gy xps yps b x nsteps (Fin 1) (Fin 1) w = (Inr (xr, r, k), w1)"
  shows "kx = 1 \<or> length r = kx"
proof (cases x)
  case None
  then show ?thesis using i xl
    by (auto simp: cg_init_def Let_def bnd_def new_zeros_def read_tensor_def ret_def length_load)
next
  case (Some x0)
  have lx: "kx = 1 \<or> length (load w x0) = kx" using xl Some by (simp add: length_load)
  let ?A = "cg_apply gx gy xps yps (Fin 1) (Fin 1) (load w x0) w"
  obtain ra wa where a: "?A = (ra, wa)" by (cases ?A)
  obtain Avx where ra: "ra = Inr Avx"
    using i Some a by (cases ra) (auto simp: cg_init_def Let_def bnd_def read_tensor_def)
  have a': "?A = (Inr Avx, wa)" using a ra by simp
  have la: "kx = 1 \<or> length Avx = kx" by (rule cg_apply_length[OF Hy refl lx a'])
  have "bcast s_sub (load wa b) Avx = Inr r"
    using i Some a' by (auto simp: cg_init_def Let_def bnd_def read_tensor_def lift_def ret_def
        split: sum.splits)
  then show ?thesis using la
    by (auto simp: bcast_def split: if_splits)
qed

text \<open>
  C6, as the code has it. On a common input that passes the shape check of the
  preconditioned variant, with graph-mode Hvp calls, \<^verbatim>\<open>lr_x\<close> and \<^verbatim>\<open>lr_y\<close>
  all ones, each of one element or of the length of the tensors it multiplies (\<^verbatim>\<open>lr_x\<close>:
  the warm start, or \<^verbatim>\<open>b\<close> when there is none, and the Hvp results with respect to
  \<^verbatim>\<open>x_params\<close>; \<^verbatim>\<open>lr_y\<close>: the Hvp results with respect to
  \<^verbatim>\<open>y_params\<close>, zeros filled in for unreached parameters included), and a warm start
  that shares no memory cell with \<^verbatim>\<open>lr_y\<close>, the two solvers end alike: the same
  error, or the same solution tensor and iteration count, with the same storages in the
  heap. (The warnings differ: the thresholds are 99 and 100.)
\<close>

theorem variants_agree:
  assumes "t_storage lr_y < length (heap w)"
    and "load w lr_x = ones kx"
    and "load w lr_y = ones ky"
    and "g_shape grad_x = [length (t_index b)]"
    and "case x of None \<Rightarrow> kx = 1 \<or> length (t_index b) = kx
         | Some x0 \<Rightarrow> \<not> shares_cell lr_y x0 \<and> (kx = 1 \<or> length (t_index x0) = kx)"
    and Hx: "ky = 1 \<or> (\<forall>v h. fst (Hvp_vec grad_x y_params v False True None None False w) = Inr h
               \<longrightarrow> length h = ky)"
    and Hy: "kx = 1 \<or> (\<forall>v h. fst (Hvp_vec grad_y x_params v False True None None False w) = Inr h
               \<longrightarrow> length h = kx)"
  shows "fst (general_conjugate_gradient grad_x grad_y x_params y_params trigger b lr_x lr_y
                x_reducer y_reducer rebuild False x nsteps tol atol w) =
         fst (conjugate_gradient grad_x grad_y x_params y_params b x nsteps tol atol (Fin 1) (Fin 1) w)
       \<and> heap (snd (general_conjugate_gradient grad_x grad_y x_params y_params trigger b lr_x lr_y
                x_reducer y_reducer rebuild False x nsteps tol atol w)) =
         heap (snd (conjugate_gradient grad_x grad_y x_params y_params b x nsteps tol atol
                (Fin 1) (Fin 1) w))"
proof -
  let ?I = "cg_init grad_x grad_y x_params y_params b x nsteps (Fin 1) (Fin 1) w"
  have xl: "case x of None \<Rightarrow> True | Some x0 \<Rightarrow> kx = 1 \<or> length (t_index x0) = kx"
    using assms(5) by (cases x) simp_all
  have xl': "case x of None \<Rightarrow> kx = 1 \<or> length (t_index b) = kx
             | Some x0 \<Rightarrow> kx = 1 \<or> length (t_index x0) = kx"
    using assms(5) by (cases x) simp_all
  have gi: "gcg_init grad_x grad_y x_params y_params trigger b (ones kx) lr_y x_reducer y_reducer
      rebuild False x nsteps w = ?I"
    by (rule init_agree[OF Hx Hy assms(3) xl])
  obtain res w1 where I: "?I = (res, w1)" by (cases ?I)
  show ?thesis
  proof (cases res)
    case (Inl e)
    then show ?thesis using gi I assms(2)
      by (simp add: general_conjugate_gradient_def conjugate_gradient_def bnd_def read_tensor_def
          sqrt_ones)
  next
    case (Inr v)
    obtain xr r k where v: "v = (xr, r, k)" by (cases v)
    have I': "?I = (Inr (xr, r, k), w1)" using I Inr v by simp
    have lr: "kx = 1 \<or> length r = kx" by (rule init_result[OF Hy xl' I'])
    have hp: "heap w1 = (case x of None \<Rightarrow> heap w @ [zeros (length (t_index b))] | Some x0 \<Rightarrow> heap w)"
      using cg_init_heap[of grad_x grad_y x_params y_params b x nsteps "Fin 1" "Fin 1" w] I by simp
    have hl: "load w1 lr_y = ones ky"
      using init_load[OF assms(1) hp] assms(3) by simp
    have ps: "pstore w1 = pstore w"
      using cg_init_pstore[of grad_x grad_y x_params y_params b x nsteps "Fin 1" "Fin 1" w] I by simp
    have ne: "\<not> shares_cell lr_y xr"
      using cg_init_tensor[OF I'] assms(1,5) by (cases x) (simp_all add: fresh_apart)
    note m = main_agree[OF Hx Hy ne lr hl ps assms(4), where tr = trigger and xrd = x_reducer
        and yrd = y_reducer and rb = rebuild and tol = tol and atol = atol and nsteps = k]
    show ?thesis using gi I' assms(2) m
      by (simp add: general_conjugate_gradient_def conjugate_gradient_def bnd_def read_tensor_def
          sqrt_ones)
  qed
qed

lemma ex_grad_length:
  "fst (Hvp_vec (ex_grad [k] d) [p] v False True None None False w) = Inr h \<Longrightarrow> length h = k"
  by (auto simp: ex_grad_def Hvp_vec_def Hvp_compute_def autograd_grad_def torch_cat_def
        split: if_splits sum.splits)

lemma detached_grad_length:
  "fst (Hvp_vec (detached_grad sh d) [p] v False True None None False w) = Inr h \<Longrightarrow>
   length h = numel (pstore w p)"
  by (auto simp: detached_grad_def Hvp_vec_def Hvp_compute_def autograd_grad_def torch_cat_def
        zeros_def split: if_splits sum.splits)

theorem variants_agree_witness:
  "load (ex_world [[Fin 1, Fin 1], [Fin 1, Fin 1], [Fin 0, Fin 0]] (flat_pstore 2)) (view 1 [0, 1])
     = ones 2
   \<and> \<not> shares_cell (view 1 [0, 1]) (view 2 [0, 1])
   \<and> general_conjugate_gradient (ex_grad [2] [Fin 3, Fin 3]) (ex_grad [2] [Fin 2, Fin 2]) [0] [1]
        None (view 0 [0, 1]) (view 1 [0, 1]) (view 1 [0, 1]) None None False False
        (Some (view 2 [0, 1])) (Some 2) default_tol default_atol
        (ex_world [[Fin 1, Fin 1], [Fin 1, Fin 1], [Fin 0, Fin 0]] (flat_pstore 2)) =
      conjugate_gradient (ex_grad [2] [Fin 3, Fin 3]) (ex_grad [2] [Fin 2, Fin 2]) [0] [1]
        (view 0 [0, 1]) (Some (view 2 [0, 1])) (Some 2) default_tol default_atol (Fin 1) (Fin 1)
        (ex_world [[Fin 1, Fin 1], [Fin 1, Fin 1], [Fin 0, Fin 0]] (flat_pstore 2))
   \<and> conjugate_gradient (ex_grad [2] [Fin 3, Fin 3]) (ex_grad [2] [Fin 2, Fin 2]) [0] [1]
        (view 0 [0, 1]) (Some (view 2 [0, 1])) (Some 2) default_tol default_atol (Fin 1) (Fin 1)
        (ex_world [[Fin 1, Fin 1], [Fin 1, Fin 1], [Fin 0, Fin 0]] (flat_pstore 2)) =
      (Inr (view 2 [0, 1], 1),
       ex_world [[Fin 1, Fin 1], [Fin 1, Fin 1], [Fin (1/2), Fin (1/2)]] (flat_pstore 2))
   \<and> fst (general_conjugate_gradient (ex_grad [2] [Fin 3, Fin 3]) (detached_grad [2] [Fin 2, Fin 2])
        [0] [1] None (view 0 [0, 1]) (view 1 [0, 1]) (view 1 [0, 1]) None None False False
        (Some (view 2 [0, 1])) (Some 2) default_tol default_atol
        (ex_world [[Fin 1, Fin 1], [Fin 1, Fin 1], [Fin 0, Fin 0]] (flat_pstore 2))) =
      Inr (view 2 [0, 1], 1)
   \<and> heap (snd (general_conjugate_gradient (ex_grad [2] [Fin 3, Fin 3])
        (detached_grad [2] [Fin 2, Fin 2])
        [0] [1] None (view 0 [0, 1]) (view 1 [0, 1]) (view 1 [0, 1]) None None False False
        (Some (view 2 [0, 1])) (Some 2) default_tol default_atol
        (ex_world [[Fin 1, Fin 1], [Fin 1, Fin 1], [Fin 0, Fin 0]] (flat_pstore 2)))) =
      [[Fin 1, Fin 1], [Fin 1, Fin 1], [Fin 1, Fin 1]]"
proof -
  let ?w = "ex_world [[Fin 1, Fin 1], [Fin 1, Fin 1], [Fin 0, Fin 0]] (flat_pstore 2)"
  let ?gx = "ex_grad [2] [Fin 3, Fin 3]" and ?gy = "ex_grad [2] [Fin 2, Fin 2]"
  have a1: "t_storage (view 1 [0, 1]) < length (heap ?w)" by (simp add: ex_defs)
  have a2: "load ?w (view 1 [0, 1]) = ones 2" by (simp add: ex_defs load_def ones_def eval_nat_numeral)
  have a3: "g_shape ?gx = [length (t_index (view 0 [0, 1]))]" by (simp add: ex_defs)
  have sc: "\<not> shares_cell (view 1 [0, 1]) (view 2 [0, 1])" by (simp add: shares_cell_def view_def)
  have a4: "case Some (view 2 [0, 1]) of None \<Rightarrow> (2::nat) = 1 \<or> length (t_index (view 0 [0, 1])) = 2
      | Some x0 \<Rightarrow> \<not> shares_cell (view 1 [0, 1]) x0 \<and> ((2::nat) = 1 \<or> length (t_index x0) = 2)"
    using sc by (simp add: view_def)
  have hx: "(2::nat) = 1 \<or> (\<forall>v h. fst (Hvp_vec ?gx [1] v False True None None False ?w) = Inr h
      \<longrightarrow> length h = 2)"
    using ex_grad_length by blast
  have hy: "(2::nat) = 1 \<or> (\<forall>v h. fst (Hvp_vec ?gy [0] v False True None None False ?w) = Inr h
      \<longrightarrow> length h = 2)"
    using ex_grad_length by blast
  note t = variants_agree[OF a1 a2 a2 a3 a4 hx hy, where trigger = None and x_reducer = None
      and y_reducer = None and rebuild = False and nsteps = "Some 2" and tol = default_tol
      and atol = default_atol]
  have c: "conjugate_gradient ?gx ?gy [0] [1] (view 0 [0, 1]) (Some (view 2 [0, 1])) (Some 2)
        default_tol default_atol (Fin 1) (Fin 1) ?w =
      (Inr (view 2 [0, 1], 1),
       ex_world [[Fin 1, Fin 1], [Fin 1, Fin 1], [Fin (1/2), Fin (1/2)]] (flat_pstore 2))"
    by (simp add: cg_defs ex_defs comp_defs tensor_defs hvp_defs)
  have g: "general_conjugate_gradient ?gx ?gy [0] [1] None (view 0 [0, 1]) (view 1 [0, 1])
        (view 1 [0, 1]) None None False False (Some (view 2 [0, 1])) (Some 2)
        default_tol default_atol ?w =
      (Inr (view 2 [0, 1], 1),
       ex_world [[Fin 1, Fin 1], [Fin 1, Fin 1], [Fin (1/2), Fin (1/2)]] (flat_pstore 2))"
    by (simp add: gcg_defs ex_defs comp_defs tensor_defs hvp_defs)
  let ?dy = "detached_grad [2] [Fin 2, Fin 2]"
  have ky: "(2::nat) = 1 \<or> (\<forall>v h. fst (Hvp_vec ?dy [0] v False True None None False ?w) = Inr h
      \<longrightarrow> length h = 2)"
    using detached_grad_length[of "[2]" "[Fin 2, Fin 2]" 0 _ ?w] by (simp add: ex_defs)
  note u = variants_agree[OF a1 a2 a2 a3 a4 hx ky, where trigger = None and x_reducer = None
      and y_reducer = None and rebuild = False and nsteps = "Some 2" and tol = default_tol
      and atol = default_atol]
  have d: "conjugate_gradient ?gx ?dy [0] [1] (view 0 [0, 1]) (Some (view 2 [0, 1])) (Some 2)
        default_tol default_atol (Fin 1) (Fin 1) ?w =
      (Inr (view 2 [0, 1], 1),
       ex_world [[Fin 1, Fin 1], [Fin 1, Fin 1], [Fin 1, Fin 1]] (flat_pstore 2))"
    by (simp add: cg_defs ex_defs comp_defs tensor_defs hvp_defs detached_grad_def eval_nat_numeral)
  show ?thesis using a2 sc t c g u d by (simp add: ex_world_def)
qed

text \<open>
  Without a warm start and with \<^verbatim>\<open>b = [0.0]\<close> the unscaled solver returns
  \<open>(x, 1)\<close> whatever the shape of \<^verbatim>\<open>grad_x\<close>; the preconditioned one raises
  on the shape \<open>[2]\<close>.
\<close>

theorem variants_differ_on_shape:
  "load (ex_world [[Fin 0], [Fin 1]] (flat_pstore 2)) (view 1 [0]) = ones 1
   \<and> fst (conjugate_gradient (ex_grad [2] [Fin 3, Fin 3]) (ex_grad [2] [Fin 2, Fin 2]) [0] [1]
          (view 0 [0]) None None default_tol default_atol (Fin 1) (Fin 1)
          (ex_world [[Fin 0], [Fin 1]] (flat_pstore 2))) = Inr (view 2 [0], 1)
   \<and> fst (general_conjugate_gradient (ex_grad [2] [Fin 3, Fin 3]) (ex_grad [2] [Fin 2, Fin 2])
          [0] [1] None (view 0 [0]) (view 1 [0]) (view 1 [0]) None None False False None None
          default_tol default_atol (ex_world [[Fin 0], [Fin 1]] (flat_pstore 2))) =
       Inl (RuntimeError ''CG: hessian vector product shape mismatch'')"
  by (simp add: cg_defs gcg_defs ex_defs comp_defs tensor_defs hvp_defs ones_def zeros_def)

text \<open>
  All-ones tensors of another length: with \<^verbatim>\<open>b\<close> of one element and \<^verbatim>\<open>lr_x\<close>
  of three ones the probe is broadcast to three elements and the first Hvp call of the
  preconditioned variant raises, where the unscaled one returns a result.
\<close>

lemma variants_differ_on_lr_length:
  "load (ex_world [[Fin 1], [Fin 1, Fin 1, Fin 1]] (flat_pstore 1)) (view 1 [0, 1, 2]) = ones 3
   \<and> load (ex_world [[Fin 1], [Fin 1, Fin 1, Fin 1]] (flat_pstore 1)) (view 1 [0]) = ones 1
   \<and> g_shape (ex_grad [1] [Fin 3]) = [length (t_index (view 0 [0]))]
   \<and> fst (conjugate_gradient (ex_grad [1] [Fin 3]) (ex_grad [1] [Fin 2]) [0] [1]
          (view 0 [0]) None None default_tol default_atol (Fin 1) (Fin 1)
          (ex_world [[Fin 1], [Fin 1, Fin 1, Fin 1]] (flat_pstore 1))) = Inr (view 2 [0], 1)
   \<and> fst (general_conjugate_gradient (ex_grad [1] [Fin 3]) (ex_grad [1] [Fin 2])
          [0] [1] None (view 0 [0]) (view 1 [0, 1, 2]) (view 1 [0]) None None False False None None
          default_tol default_atol (ex_world [[Fin 1], [Fin 1, Fin 1, Fin 1]] (flat_pstore 1))) =
       Inl (RuntimeError ''Mismatch in shape'')"
  by (simp add: cg_defs gcg_defs ex_defs comp_defs tensor_defs hvp_defs ones_def zeros_def
      eval_nat_numeral)

text \<open>
  A warm start that is the tensor \<^verbatim>\<open>lr_y\<close>: after the first iteration
  \<^verbatim>\<open>lr_y\<close> holds the updated \<open>x\<close>, the operator of the preconditioned variant
  has changed, and the two solvers return different solutions.
\<close>

lemma variants_differ_on_alias:
  "load (ex_world [[Fin 3, Fin 5], [Fin 1, Fin 1], [Fin 1, Fin 1]] (flat_pstore 2)) (view 2 [0, 1])
     = ones 2
   \<and> conjugate_gradient (ex_grad [2] [Fin 3, Fin 3]) (diag_grad [Fin 1, Fin 3]) [0] [1]
          (view 0 [0, 1]) (Some (view 2 [0, 1])) (Some 3) default_tol default_atol (Fin 1) (Fin 1)
          (ex_world [[Fin 3, Fin 5], [Fin 1, Fin 1], [Fin 1, Fin 1]] (flat_pstore 2)) =
       (Inr (view 2 [0, 1], 2),
        ex_world [[Fin 3, Fin 5], [Fin 1, Fin 1], [Fin (3/2), Fin (5/4)]] (flat_pstore 2))
   \<and> general_conjugate_gradient (ex_grad [2] [Fin 3, Fin 3]) (diag_grad [Fin 1, Fin 3])
          [0] [1] None (view 0 [0, 1]) (view 1 [0, 1]) (view 2 [0, 1]) None None False False
          (Some (view 2 [0, 1])) (Some 3) default_tol default_atol
          (ex_world [[Fin 3, Fin 5], [Fin 1, Fin 1], [Fin 1, Fin 1]] (flat_pstore 2)) =
       (Inr (view 2 [0, 1], 2),
        ex_world [[Fin 3, Fin 5], [Fin 1, Fin 1], [Fin (190/129), Fin (163/129)]] (flat_pstore 2))"
  by (simp add: cg_defs gcg_defs ex_defs comp_defs tensor_defs hvp_defs ones_def diag_grad_def
      eval_nat_numeral)

section \<open>Accumulation mode with a trigger\<close>

lemma zeroed_idem: "zeroed (zeroed q) = zeroed q"
  by (cases "grad q") (simp_all add: zeroed_def zeros_def)

lemma zero_grad_loop_eq:
  "zero_grad_loop ps s = (\<lambda>q. if q \<in> set ps then zeroed (s q) else s q)"
proof (induction ps arbitrary: s)
  case Nil
  show ?case by simp
next
  case (Cons p ps)
  have step: "(case grad (s p) of Some g \<Rightarrow> s(p := (s p)\<lparr>grad := Some (zeros (length g))\<rparr>) | None \<Rightarrow> s)
      = s(p := zeroed (s p))"
    by (cases "grad (s p)") (auto simp: zeroed_def fun_eq_iff)
  show ?case unfolding zero_grad_loop.simps step Cons.IH
    by (auto simp: fun_eq_iff zeroed_idem)
qed

lemma s_add_zero_left: "s_add (Fin 0) x = x"
  by (cases x) simp_all

lemma map2_add_zeros: "length v = k \<Longrightarrow> map2 s_add (zeros k) v = v"
  by (rule nth_equalityI) (simp_all add: zeros_def s_add_zero_left)

lemma accumulate_grad_other: "q \<notin> set ps \<Longrightarrow> accumulate_grad ps gs s q = s q"
proof (induction ps gs s rule: accumulate_grad.induct)
  case (1 p ps v gs s)
  from "1.prems" have a: "q \<noteq> p" and b: "q \<notin> set ps" by auto
  show ?case unfolding accumulate_grad.simps "1.IH"[OF b] using a by simp
next
  case (2 p ps gs s)
  then show ?case by simp
qed simp_all

lemma grad_grad_loop_eq:
  "length gs = i + length ps \<Longrightarrow>
   grad_grad_loop s gs i ps acc = Inr (acc @ map2 (contrib s) ps (drop i gs))"
proof (induction ps arbitrary: i acc)
  case Nil
  then show ?case by simp
next
  case (Cons p ps)
  have i: "i < length gs" using Cons.prems by simp
  have d: "drop i gs = gs ! i # drop (Suc i) gs" using i by (simp add: Cons_nth_drop_Suc)
  have "grad_grad_loop s gs (Suc i) ps (acc @ [contrib s p (gs ! i)]) =
      Inr ((acc @ [contrib s p (gs ! i)]) @ map2 (contrib s) ps (drop (Suc i) gs))"
    using Cons.prems by (intro Cons.IH) simp
  then show ?case using i d by (simp add: contrib_def)
qed

lemma accumulate_grad_distinct:
  "distinct ps \<Longrightarrow> length gs = length ps \<Longrightarrow>
   map (accumulate_grad ps gs s) ps = map2 (\<lambda>p go. accumulated (s p) go) ps gs"
proof (induction ps arbitrary: gs s)
  case Nil
  then show ?case by simp
next
  case (Cons p ps)
  obtain go gs' where gs: "gs = go # gs'" using Cons.prems(2) by (cases gs) auto
  have d: "distinct ps" and nin: "p \<notin> set ps" and l: "length gs' = length ps"
    using Cons.prems gs by auto
  let ?s = "case go of None \<Rightarrow> s | Some v \<Rightarrow> s(p := accumulated (s p) go)"
  have step: "accumulate_grad (p # ps) gs s = accumulate_grad ps gs' ?s"
    using gs by (cases go) (simp_all add: accumulated_def)
  have hd: "accumulate_grad ps gs' ?s p = accumulated (s p) go"
    using accumulate_grad_other[OF nin, of gs' ?s] by (cases go) (simp_all add: accumulated_def)
  have "map (accumulate_grad ps gs' ?s) ps = map2 (\<lambda>p go. accumulated (?s p) go) ps gs'"
    by (rule Cons.IH[OF d l])
  also have "\<dots> = map2 (\<lambda>p go. accumulated (s p) go) ps gs'"
    using nin by (intro map_cong refl) (auto split: option.splits dest: set_zip_leftD)
  finally show ?case using step hd gs by simp
qed

lemma grad_or_zeros_accumulated:
  assumes "case grad (s p) of None \<Rightarrow> True | Some g \<Rightarrow> length g = numel (s p)"
    and "case go of None \<Rightarrow> True | Some v \<Rightarrow> length v = numel (s p)"
    and "s2 p = accumulated (zeroed (s p)) go"
  shows "grad_or_zeros s2 p = contrib s p go"
proof (cases go)
  case None
  then show ?thesis using assms
    by (cases "grad (s p)") (simp_all add: grad_or_zeros_def contrib_def accumulated_def zeroed_def)
next
  case (Some v)
  then show ?thesis using assms
    by (cases "grad (s p)")
       (simp_all add: grad_or_zeros_def contrib_def accumulated_def zeroed_def map2_add_zeros)
qed

lemma backward_reads:
  assumes d: "distinct ps"
    and st: "list_all (\<lambda>p. case grad (s p) of None \<Rightarrow> True | Some g \<Rightarrow> length g = numel (s p)) ps"
    and gr: "list_all2 (\<lambda>p go. case go of None \<Rightarrow> True | Some v \<Rightarrow> length v = numel (s p)) ps gs"
  shows "map (grad_or_zeros (accumulate_grad ps gs (zero_grad_loop ps s))) ps = map2 (contrib s) ps gs"
proof -
  let ?s1 = "zero_grad_loop ps s"
  let ?s2 = "accumulate_grad ps gs ?s1"
  have l: "length gs = length ps" using gr by (simp add: list_all2_lengthD)
  have acc: "map ?s2 ps = map2 (\<lambda>p go. accumulated (?s1 p) go) ps gs"
    by (rule accumulate_grad_distinct[OF d l])
  show ?thesis
  proof (rule nth_equalityI)
    show "length (map (grad_or_zeros ?s2) ps) = length (map2 (contrib s) ps gs)"
      using l by simp
  next
    fix i assume "i < length (map (grad_or_zeros ?s2) ps)"
    then have i: "i < length ps" by simp
    have ig: "i < length gs" using i l by simp
    have pin: "ps ! i \<in> set ps" using i by simp
    have "map ?s2 ps ! i = map2 (\<lambda>p go. accumulated (?s1 p) go) ps gs ! i" using acc by simp
    then have s2: "?s2 (ps ! i) = accumulated (zeroed (s (ps ! i))) (gs ! i)"
      using i ig pin by (simp add: zero_grad_loop_eq)
    have a: "case grad (s (ps ! i)) of None \<Rightarrow> True | Some g \<Rightarrow> length g = numel (s (ps ! i))"
      using st i by (simp add: list_all_length)
    have b: "case gs ! i of None \<Rightarrow> True | Some v \<Rightarrow> length v = numel (s (ps ! i))"
      using gr i by (simp add: list_all2_conv_all_nth)
    have "grad_or_zeros ?s2 (ps ! i) = contrib s (ps ! i) (gs ! i)"
      using a b s2 by (intro grad_or_zeros_accumulated[where s = s and p = "ps ! i" and go = "gs ! i"])
    then show "map (grad_or_zeros ?s2) ps ! i = map2 (contrib s) ps gs ! i"
      using i ig by simp
  qed
qed

text \<open>
  The rest of C7: with a trigger scalar supplied and no reducer, for distinct parameters
  whose existing buffers and computed gradients have the sizes of their parameters, the
  accumulation mode returns what the graph mode returns (or fails with the same error).
\<close>

lemma Hvp_vec_modes_agree:
  assumes d: "distinct params"
    and st: "list_all (\<lambda>p. case grad (pstore w p) of None \<Rightarrow> True
                          | Some g \<Rightarrow> length g = numel (pstore w p)) params"
    and gr: "case autograd_grad grad_vec params vec retain_graph of
               Inl e \<Rightarrow> True
             | Inr gs \<Rightarrow> list_all2 (\<lambda>p go. case go of None \<Rightarrow> True
                                       | Some v \<Rightarrow> length v = numel (pstore w p)) params gs"
  shows "fst (Hvp_vec grad_vec params vec True retain_graph (Some t) None rebuild w) =
         fst (Hvp_vec grad_vec params vec False retain_graph trigger reducer rebuild' w)"
proof (cases "autograd_grad grad_vec params vec retain_graph")
  case (Inl e)
  then show ?thesis
    by (simp add: Hvp_vec_def Hvp_compute_def autograd_backward_def bnd_def reducer_calls_def
        zero_grad_def)
next
  case (Inr gs)
  have g: "list_all2 (\<lambda>p go. case go of None \<Rightarrow> True
      | Some v \<Rightarrow> length v = numel (pstore w p)) params gs"
    using gr Inr by simp
  have l: "length gs = 0 + length params" using g by (simp add: list_all2_lengthD)
  have gg: "grad_grad_loop (pstore w) gs 0 params [] = Inr (map2 (contrib (pstore w)) params gs)"
    using grad_grad_loop_eq[OF l, of "pstore w" "[]"] by simp
  have fr: "first_reads s [] params = map (grad_or_zeros s) params" for s
    using d by (simp add: first_reads_distinct)
  have br: "map (grad_or_zeros (accumulate_grad params gs (zero_grad_loop params (pstore w)))) params
      = map2 (contrib (pstore w)) params gs"
    by (rule backward_reads[OF d st g])
  show ?thesis using Inr gg br
    by (simp add: Hvp_vec_def Hvp_compute_def autograd_backward_def bnd_def reducer_calls_def
        zero_grad_def vectorize_grad_def vectorize_grad_loop_eq fr split: sum.splits)
qed

end
